theory Spec2Isabelle
  imports Complex_Main
begin

section \<open>Filtered image transformations (imagebufalgo\_xform.cpp)\<close>

text \<open>
  The development embeds the functions of \<^verbatim>\<open>src/libOpenImageIO/imagebufalgo_xform.cpp\<close>.
  C++ \<^verbatim>\<open>int\<close> is modelled by \<^typ>\<open>int\<close> (no overflow is written out: image
  coordinates are far from the 32-bit bounds). A C++ \<^verbatim>\<open>float\<close> is modelled by the real
  number it denotes, and the float arithmetic of the functions of this file is binary32:
  every sum, difference, product, quotient and conversion from \<^verbatim>\<open>int\<close> is rounded to the
  nearest binary32 value, in the order in which the C++ expression evaluates.
\<close>

subsection \<open>Binary32 arithmetic\<close>

text \<open>
  Rounding to nearest, ties to even, with gradual underflow: a real \<open>x\<close> with
  \<open>2^e \<le> |x| < 2^(e+1)\<close> is rounded to a multiple of \<open>2^(max e (-126) - 23)\<close>.
  \<open>bexp n a\<close> finds the exponent \<open>e\<close> of a positive \<open>a\<close> in at most \<open>n\<close> halvings or
  doublings; 300 steps cover every exponent of the format.
\<close>

definition round_even :: "real \<Rightarrow> int" where
  "round_even y =
     (let f = \<lfloor>y\<rfloor>; d = y - real_of_int f
      in if d < 1/2 then f else if 1/2 < d then f + 1 else if even f then f else f + 1)"

fun bexp :: "nat \<Rightarrow> real \<Rightarrow> int" where
  "bexp 0 a = 0"
| "bexp (Suc n) a =
     (if 2 \<le> a then bexp n (a / 2) + 1 else if a < 1 then bexp n (a * 2) - 1 else 0)"

definition rnd32 :: "real \<Rightarrow> real" where
  "rnd32 x =
     (let q = max (bexp 300 \<bar>x\<bar>) (- 126) - 23
      in real_of_int (round_even (x / 2 powi q)) * 2 powi q)"

text \<open>
  The operations \<^verbatim>\<open>a + b\<close>, \<^verbatim>\<open>a - b\<close>, \<^verbatim>\<open>a * b\<close>, \<^verbatim>\<open>a / b\<close> on floats and the
  conversion \<^verbatim>\<open>float(n)\<close> of an \<^verbatim>\<open>int\<close>. Each operation is rounded on its own (no
  fused multiply-add). Infinities and NaN are not represented: \<open>rnd32\<close> continues the
  binary32 grid above the largest finite float, and \<open>fdiv\<close> is only applied where the
  source guards the divisor, where the function has returned \<open>None\<close> for a zero divisor,
  or where a theorem assumes the divisor nonzero. A conversion \<^verbatim>\<open>(int)v\<close> of a float that
  holds an integer (after \<^verbatim>\<open>floorf\<close> or \<^verbatim>\<open>ceilf\<close>) is written as the floor or ceiling
  into \<^typ>\<open>int\<close>; C++ defines it only for a value that fits an \<^verbatim>\<open>int\<close>, which is the
  predicate \<open>int_range\<close>.
\<close>

definition fadd :: "real \<Rightarrow> real \<Rightarrow> real" where "fadd a b = rnd32 (a + b)"
definition fsub :: "real \<Rightarrow> real \<Rightarrow> real" where "fsub a b = rnd32 (a - b)"
definition fmul :: "real \<Rightarrow> real \<Rightarrow> real" where "fmul a b = rnd32 (a * b)"
definition fdiv :: "real \<Rightarrow> real \<Rightarrow> real" where "fdiv a b = rnd32 (a / b)"
definition i2f :: "int \<Rightarrow> real" where "i2f n = rnd32 (real_of_int n)"

definition int_range :: "real \<Rightarrow> bool" where
  "int_range v \<longleftrightarrow> - 2147483648 \<le> v \<and> v < 2147483648"

subsection \<open>Regions of interest\<close>

record ROI =
  xbegin :: int
  xend :: int
  ybegin :: int
  yend :: int
  zbegin :: int
  zend :: int
  chbegin :: int
  chend :: int

text \<open>\<^verbatim>\<open>ROI(xbegin, xend, ybegin, yend, zbegin, zend, chbegin, chend)\<close>\<close>

definition mkROI :: "int \<Rightarrow> int \<Rightarrow> int \<Rightarrow> int \<Rightarrow> int \<Rightarrow> int \<Rightarrow> int \<Rightarrow> int \<Rightarrow> ROI" where
  "mkROI xb xe yb ye zb ze cb ce =
     \<lparr>xbegin = xb, xend = xe, ybegin = yb, yend = ye,
      zbegin = zb, zend = ze, chbegin = cb, chend = ce\<rparr>"

subsection \<open>3x3 matrices, points and boxes (Imath)\<close>

text \<open>
  \<^verbatim>\<open>Imath::M33f\<close> in row-major order, \<^verbatim>\<open>M[i][j]\<close> being row \<open>i\<close>, column \<open>j\<close>;
  points are row vectors and \<^verbatim>\<open>multVecMatrix\<close> computes \<open>v * M\<close> followed by the
  projective divide.
\<close>

datatype M33f = M33f real real real  real real real  real real real

fun mel :: "M33f \<Rightarrow> nat \<Rightarrow> nat \<Rightarrow> real" where
  "mel (M33f a b c d e f g h i) r k =
     (if r = 0 then (if k = 0 then a else if k = 1 then b else c)
      else if r = 1 then (if k = 0 then d else if k = 1 then e else f)
      else (if k = 0 then g else if k = 1 then h else i))"

type_synonym V2f = "real \<times> real"

text \<open>
  \<^verbatim>\<open>M.multVecMatrix(src, dst)\<close> for a 2D point, as Imath writes it:
  \<^verbatim>\<open>a = src.x * x[0][0] + src.y * x[1][0] + x[2][0]\<close>, likewise \<open>b\<close> and \<open>w\<close>, then
  \<open>a / w\<close> and \<open>b / w\<close> with no test of \<open>w\<close>. A zero \<open>w\<close> gives no finite point, which
  is the value \<open>None\<close> here.
\<close>

definition multVecMatrix :: "M33f \<Rightarrow> V2f \<Rightarrow> V2f option" where
  "multVecMatrix M p =
     (let a = fadd (fadd (fmul (fst p) (mel M 0 0)) (fmul (snd p) (mel M 1 0))) (mel M 2 0);
          b = fadd (fadd (fmul (fst p) (mel M 0 1)) (fmul (snd p) (mel M 1 1))) (mel M 2 1);
          w = fadd (fadd (fmul (fst p) (mel M 0 2)) (fmul (snd p) (mel M 1 2))) (mel M 2 2)
      in if w = 0 then None else Some (fdiv a w, fdiv b w))"

record Box2f =
  box_min :: V2f
  box_max :: V2f

text \<open>\<^verbatim>\<open>Imath::Box2f box(p)\<close> and \<^verbatim>\<open>box.extendBy(p)\<close>.\<close>

definition Box2f_of :: "V2f \<Rightarrow> Box2f" where
  "Box2f_of p = \<lparr>box_min = p, box_max = p\<rparr>"

definition extendBy :: "Box2f \<Rightarrow> V2f \<Rightarrow> Box2f" where
  "extendBy b p =
     \<lparr>box_min = (if fst p < fst (box_min b) then fst p else fst (box_min b),
                 if snd p < snd (box_min b) then snd p else snd (box_min b)),
      box_max = (if fst p > fst (box_max b) then fst p else fst (box_max b),
                 if snd p > snd (box_max b) then snd p else snd (box_max b))\<rparr>"

subsection \<open>Transforming a ROI\<close>

text \<open>\<^verbatim>\<open>ROI transform(const Imath::M33f& M, ROI roi)\<close>\<close>

definition transform :: "M33f \<Rightarrow> ROI \<Rightarrow> ROI option" where
  "transform M roi =
     (let ul = (fadd (i2f (xbegin roi)) 0.5, fadd (i2f (ybegin roi)) 0.5);
          ur = (fsub (i2f (xend roi)) 0.5, fadd (i2f (ybegin roi)) 0.5);
          ll = (fadd (i2f (xbegin roi)) 0.5, fsub (i2f (yend roi)) 0.5);
          lr = (fsub (i2f (xend roi)) 0.5, fsub (i2f (yend roi)) 0.5)
      in case multVecMatrix M ul of None \<Rightarrow> None | Some ul' \<Rightarrow>
         (case multVecMatrix M ur of None \<Rightarrow> None | Some ur' \<Rightarrow>
         (case multVecMatrix M ll of None \<Rightarrow> None | Some ll' \<Rightarrow>
         (case multVecMatrix M lr of None \<Rightarrow> None | Some lr' \<Rightarrow>
            (let box = extendBy (extendBy (extendBy (Box2f_of ul') ll') ur') lr';
                 xmin = \<lfloor>fst (box_min box)\<rfloor>;
                 ymin = \<lfloor>snd (box_min box)\<rfloor>;
                 xmax = \<lfloor>fst (box_max box)\<rfloor> + 1;
                 ymax = \<lfloor>snd (box_max box)\<rfloor> + 1
             in Some (mkROI xmin xmax ymin ymax (zbegin roi) (zend roi)
                            (chbegin roi) (chend roi)))))))"

text \<open>
  The statement side of the ROI transform: the centres of the four corner pixels of a
  ROI (the first pixel at \<open>begin + 0.5\<close>, the last at \<open>end - 0.5\<close>, as floats), and the
  image of a point under \<open>M\<close> in binary32, with every rounding written out: the
  homogeneous coordinate \<open>w\<close> of \<open>(x, y, 1) * M\<close> and the quotients by it.
\<close>

definition corner_centers :: "ROI \<Rightarrow> V2f list" where
  "corner_centers roi =
     [(rnd32 (rnd32 (real_of_int (xbegin roi)) + 0.5), rnd32 (rnd32 (real_of_int (ybegin roi)) + 0.5)),
      (rnd32 (rnd32 (real_of_int (xend roi)) - 0.5), rnd32 (rnd32 (real_of_int (ybegin roi)) + 0.5)),
      (rnd32 (rnd32 (real_of_int (xbegin roi)) + 0.5), rnd32 (rnd32 (real_of_int (yend roi)) - 0.5)),
      (rnd32 (rnd32 (real_of_int (xend roi)) - 0.5), rnd32 (rnd32 (real_of_int (yend roi)) - 0.5))]"

definition homog_w32 :: "M33f \<Rightarrow> V2f \<Rightarrow> real" where
  "homog_w32 M p =
     rnd32 (rnd32 (rnd32 (fst p * mel M 0 2) + rnd32 (snd p * mel M 1 2)) + mel M 2 2)"

definition image_pt32 :: "M33f \<Rightarrow> V2f \<Rightarrow> V2f" where
  "image_pt32 M p =
     (rnd32 (rnd32 (rnd32 (rnd32 (fst p * mel M 0 0) + rnd32 (snd p * mel M 1 0)) + mel M 2 0)
               / homog_w32 M p),
      rnd32 (rnd32 (rnd32 (rnd32 (fst p * mel M 0 1) + rnd32 (snd p * mel M 1 1)) + mel M 2 1)
               / homog_w32 M p))"

text \<open>
  The same map in exact arithmetic, for the statements about matrices: the homogeneous
  coordinate and the image of a point.
\<close>

definition homog_w :: "M33f \<Rightarrow> V2f \<Rightarrow> real" where
  "homog_w M p = fst p * mel M 0 2 + snd p * mel M 1 2 + mel M 2 2"

definition image_pt :: "M33f \<Rightarrow> V2f \<Rightarrow> V2f" where
  "image_pt M p =
     ((fst p * mel M 0 0 + snd p * mel M 1 0 + mel M 2 0) / homog_w M p,
      (fst p * mel M 0 1 + snd p * mel M 1 1 + mel M 2 1) / homog_w M p)"

subsection \<open>Dual numbers\<close>

text \<open>\<^verbatim>\<open>class Dual2\<close>: a value with its partial derivatives along x and y.\<close>

record Dual2 =
  val :: real
  dx :: real
  dy :: real

definition Dual2_of :: "real \<Rightarrow> Dual2" where
  "Dual2_of v = \<lparr>val = v, dx = 0, dy = 0\<rparr>"

definition dual_add :: "Dual2 \<Rightarrow> Dual2 \<Rightarrow> Dual2" where
  "dual_add a b = \<lparr>val = val a + val b, dx = dx a + dx b, dy = dy a + dy b\<rparr>"

definition dual_addf :: "Dual2 \<Rightarrow> real \<Rightarrow> Dual2" where
  "dual_addf a b = \<lparr>val = val a + b, dx = dx a, dy = dy a\<rparr>"

definition dual_mulf :: "Dual2 \<Rightarrow> real \<Rightarrow> Dual2" where
  "dual_mulf a b = \<lparr>val = val a * b, dx = dx a * b, dy = dy a * b\<rparr>"

text \<open>\<^verbatim>\<open>operator/\<close>; the only caller divides after testing \<open>b.val() != 0\<close>.\<close>

definition dual_div :: "Dual2 \<Rightarrow> Dual2 \<Rightarrow> Dual2" where
  "dual_div a b =
     (let bvalinv = 1 / val b;
          aval_bval = val a * bvalinv
      in \<lparr>val = aval_bval,
          dx = bvalinv * (dx a - aval_bval * dx b),
          dy = bvalinv * (dy a - aval_bval * dy b)\<rparr>)"

text \<open>The homogeneous coordinate computed by \<^verbatim>\<open>robust_multVecMatrix\<close>.\<close>

definition robust_w :: "M33f \<Rightarrow> Dual2 \<Rightarrow> Dual2 \<Rightarrow> Dual2" where
  "robust_w M x y =
     dual_addf (dual_add (dual_mulf x (mel M 0 2)) (dual_mulf y (mel M 1 2))) (mel M 2 2)"

text \<open>\<^verbatim>\<open>robust_multVecMatrix(M, x, y, outx, outy)\<close>, returning \<open>(outx, outy)\<close>.\<close>

definition robust_multVecMatrix :: "M33f \<Rightarrow> Dual2 \<Rightarrow> Dual2 \<Rightarrow> Dual2 \<times> Dual2" where
  "robust_multVecMatrix M x y =
     (let a = dual_addf (dual_add (dual_mulf x (mel M 0 0)) (dual_mulf y (mel M 1 0))) (mel M 2 0);
          b = dual_addf (dual_add (dual_mulf x (mel M 0 1)) (dual_mulf y (mel M 1 1))) (mel M 2 1);
          w = robust_w M x y
      in if val w \<noteq> 0 then (dual_div a w, dual_div b w)
         else (Dual2_of 0, Dual2_of 0))"

subsection \<open>Filters and image buffers\<close>

text \<open>
  \<^verbatim>\<open>Filter2D\<close> is an interface of the filter catalogue: a width, a height, the
  separability flag, the 2D evaluator \<^verbatim>\<open>operator()(x, y)\<close> and the 1D evaluators.
\<close>

record Filter2D =
  fname :: string
  width :: real
  height :: real
  separable :: bool
  feval :: "real \<Rightarrow> real \<Rightarrow> real"
  xfilt :: "real \<Rightarrow> real"
  yfilt :: "real \<Rightarrow> real"

datatype WrapMode = WrapDefault | WrapBlack | WrapClamp | WrapPeriodic | WrapMirror

record ImageSpec =
  spec_x :: int
  spec_y :: int
  spec_z :: int
  spec_width :: int
  spec_height :: int
  spec_depth :: int
  full_x :: int
  full_y :: int
  full_width :: int
  full_height :: int
  nchannels :: int
  chan_uint32 :: "nat \<Rightarrow> bool"

text \<open>A deep sample value is stored in the type of its channel.\<close>

datatype deepval = FloatVal real | UIntVal nat

text \<open>
  The image buffer: its spec, the stored pixels \<open>pixels x y z c\<close>, and for a deep image
  the per-pixel sample counts and sample values.
\<close>

record ImageBuf =
  spec :: ImageSpec
  initialized :: bool
  deep :: bool
  pixels :: "int \<Rightarrow> int \<Rightarrow> int \<Rightarrow> nat \<Rightarrow> real"
  deep_samples :: "int \<Rightarrow> int \<Rightarrow> int \<Rightarrow> int"
  deep_values :: "int \<Rightarrow> int \<Rightarrow> int \<Rightarrow> nat \<Rightarrow> nat \<Rightarrow> deepval"
  errors :: "string list"

text \<open>
  Modelled from the spec: the accessors of the buffer (imagebuf.cpp is not among the
  sources). The data window is \<open>(x, y, width, height)\<close>, the full window
  \<open>(full_x, full_y, full_width, full_height)\<close>.
\<close>

definition ib_xbegin :: "ImageBuf \<Rightarrow> int" where "ib_xbegin ib = spec_x (spec ib)"
definition ib_xend :: "ImageBuf \<Rightarrow> int" where "ib_xend ib = spec_x (spec ib) + spec_width (spec ib)"
definition ib_ybegin :: "ImageBuf \<Rightarrow> int" where "ib_ybegin ib = spec_y (spec ib)"
definition ib_yend :: "ImageBuf \<Rightarrow> int" where "ib_yend ib = spec_y (spec ib) + spec_height (spec ib)"
definition ib_zbegin :: "ImageBuf \<Rightarrow> int" where "ib_zbegin ib = spec_z (spec ib)"
definition ib_zend :: "ImageBuf \<Rightarrow> int" where "ib_zend ib = spec_z (spec ib) + spec_depth (spec ib)"
definition ib_nchannels :: "ImageBuf \<Rightarrow> int" where "ib_nchannels ib = nchannels (spec ib)"

definition ib_roi :: "ImageBuf \<Rightarrow> ROI" where
  "ib_roi ib = mkROI (ib_xbegin ib) (ib_xend ib) (ib_ybegin ib) (ib_yend ib)
                     (ib_zbegin ib) (ib_zend ib) 0 (ib_nchannels ib)"

definition ib_roi_full :: "ImageBuf \<Rightarrow> ROI" where
  "ib_roi_full ib =
     mkROI (full_x (spec ib)) (full_x (spec ib) + full_width (spec ib))
           (full_y (spec ib)) (full_y (spec ib) + full_height (spec ib))
           (ib_zbegin ib) (ib_zend ib) 0 (ib_nchannels ib)"

text \<open>
  Modelled from the spec: \<^verbatim>\<open>clamp(a, low, high)\<close> (fmath.h is not among the sources)
  limits \<open>a\<close> to the range from \<open>low\<close> to \<open>high\<close>.
\<close>

definition clamp :: "int \<Rightarrow> int \<Rightarrow> int \<Rightarrow> int" where
  "clamp a low high = (let v = (if \<not> low \<le> a then low else a) in if v > high then high else v)"

text \<open>
  Modelled from the spec: the value the buffer's const iterator yields at \<open>(x, y, z)\<close>,
  channel \<open>c\<close>, under a wrap mode (imagebuf.cpp is not among the sources). Inside the
  data window it is the stored pixel; outside, the wrap mode synthesises it: Black
  (zero), Clamp (edge), Periodic (tile), Mirror (reflect).
\<close>

definition in_window :: "ImageBuf \<Rightarrow> int \<Rightarrow> int \<Rightarrow> int \<Rightarrow> bool" where
  "in_window ib x y z \<longleftrightarrow>
     ib_xbegin ib \<le> x \<and> x < ib_xend ib \<and> ib_ybegin ib \<le> y \<and> y < ib_yend ib \<and>
     ib_zbegin ib \<le> z \<and> z < ib_zend ib"

fun wrap_coord :: "WrapMode \<Rightarrow> int \<Rightarrow> int \<Rightarrow> int \<Rightarrow> int" where
  "wrap_coord WrapClamp b n x = clamp x b (b + n - 1)"
| "wrap_coord WrapPeriodic b n x = b + (x - b) mod n"
| "wrap_coord WrapMirror b n x =
     (let m = (x - b) mod (2 * n) in b + (if m < n then m else 2 * n - 1 - m))"
| "wrap_coord _ b n x = x"

definition iter_read :: "ImageBuf \<Rightarrow> WrapMode \<Rightarrow> int \<Rightarrow> int \<Rightarrow> int \<Rightarrow> nat \<Rightarrow> real" where
  "iter_read ib wrap x y z c =
     (if in_window ib x y z then pixels ib x y z c
      else if wrap = WrapBlack \<or> wrap = WrapDefault then 0
      else (let x' = wrap_coord wrap (ib_xbegin ib) (spec_width (spec ib)) x;
                y' = wrap_coord wrap (ib_ybegin ib) (spec_height (spec ib)) y;
                z' = wrap_coord wrap (ib_zbegin ib) (spec_depth (spec ib)) z
            in if in_window ib x' y' z' then pixels ib x' y' z' c else 0))"

text \<open>
  The pixels an iterator over \<open>[xb, xe) \<times> [yb, ye) \<times> [zb, ze)\<close> visits, in raster order
  (x fastest). The ranges are half open, as the ROI's are: the resize kernel asks for
  \<open>2 * radi + 1\<close> columns with \<^verbatim>\<open>rerange(src_x - radi, src_x + radi + 1, ...)\<close>.
\<close>

definition iter_range :: "int \<Rightarrow> int \<Rightarrow> int \<Rightarrow> int \<Rightarrow> int \<Rightarrow> int \<Rightarrow> (int \<times> int \<times> int) list" where
  "iter_range xb xe yb ye zb ze =
     concat (map (\<lambda>z. concat (map (\<lambda>y. map (\<lambda>x. (x, y, z)) [xb..xe - 1]) [yb..ye - 1]))
                 [zb..ze - 1])"

definition roi_pixels :: "ROI \<Rightarrow> (int \<times> int \<times> int) list" where
  "roi_pixels roi =
     iter_range (xbegin roi) (xend roi) (ybegin roi) (yend roi) (zbegin roi) (zend roi)"

text \<open>The channels \<open>p[0], ..., p[nc - 1]\<close> of the pixel under the iterator.\<close>

definition pixel_at :: "ImageBuf \<Rightarrow> WrapMode \<Rightarrow> int \<times> int \<times> int \<Rightarrow> real list" where
  "pixel_at ib wrap p =
     (case p of (x, y, z) \<Rightarrow> map (iter_read ib wrap x y z) [0..<nat (ib_nchannels ib)])"

subsection \<open>The filtered sample\<close>

text \<open>
  \<^verbatim>\<open>filtered_sample\<close>, first half: the footprint and the arguments given to the
  \<^verbatim>\<open>ConstIterator\<close>, that is \<open>(smin, smax, tmin, tmax, wrap)\<close>. The four conversions
  to \<^verbatim>\<open>int\<close> are written without their range, so that the sample is a total function
  of its arguments.
\<close>

definition sample_support ::
  "ImageBuf \<Rightarrow> real \<Rightarrow> real \<Rightarrow> real \<Rightarrow> real \<Rightarrow> real \<Rightarrow> real \<Rightarrow> Filter2D \<Rightarrow> WrapMode \<Rightarrow> bool
     \<Rightarrow> int \<times> int \<times> int \<times> int \<times> WrapMode" where
  "sample_support src s t dsdx dtdx dsdy dtdy filt wrap edgeclamp =
     (let ds = max 1 (max \<bar>dsdx\<bar> \<bar>dsdy\<bar>);
          dt = max 1 (max \<bar>dtdx\<bar> \<bar>dtdy\<bar>);
          filterrad_s = fmul (fmul 0.5 ds) (width filt);
          filterrad_t = fmul (fmul 0.5 dt) (width filt);
          smin = \<lfloor>fsub s filterrad_s\<rfloor>;
          smax = \<lceil>fadd s filterrad_s\<rceil>;
          tmin = \<lfloor>fsub t filterrad_t\<rfloor>;
          tmax = \<lceil>fadd t filterrad_t\<rceil>
      in if edgeclamp
         then (clamp smin (ib_xbegin src) (ib_xend src), clamp smax (ib_xbegin src) (ib_xend src),
               clamp tmin (ib_ybegin src) (ib_yend src), clamp tmax (ib_ybegin src) (ib_yend src),
               wrap)
         else (smin, smax, tmin, tmax, wrap))"

text \<open>The pixels visited by \<^verbatim>\<open>samp\<close>, the iterator built from those arguments.\<close>

definition sample_pixels ::
  "ImageBuf \<Rightarrow> real \<Rightarrow> real \<Rightarrow> real \<Rightarrow> real \<Rightarrow> real \<Rightarrow> real \<Rightarrow> Filter2D \<Rightarrow> WrapMode \<Rightarrow> bool
     \<Rightarrow> (int \<times> int \<times> int) list" where
  "sample_pixels src s t dsdx dtdx dsdy dtdy filt wrap edgeclamp =
     (case sample_support src s t dsdx dtdx dsdy dtdy filt wrap edgeclamp of
        (smin, smax, tmin, tmax, w) \<Rightarrow> iter_range smin smax tmin tmax 0 1)"

text \<open>One turn of the accumulation loop: \<open>sum[c] += w * samp[c]\<close>, \<open>total_w += w\<close>.\<close>

definition accum :: "real \<Rightarrow> real list \<Rightarrow> real list \<times> real \<Rightarrow> real list \<times> real" where
  "accum w px st = (map2 (\<lambda>a v. fadd a (fmul w v)) (fst st) px, fadd (snd st) w)"

text \<open>\<^verbatim>\<open>filtered_sample\<close>, returning the \<open>nc\<close> values it writes to \<open>result\<close>.\<close>

definition filtered_sample ::
  "ImageBuf \<Rightarrow> real \<Rightarrow> real \<Rightarrow> real \<Rightarrow> real \<Rightarrow> real \<Rightarrow> real \<Rightarrow> Filter2D \<Rightarrow> WrapMode \<Rightarrow> bool
     \<Rightarrow> real list" where
  "filtered_sample src s t dsdx dtdx dsdy dtdy filt wrap edgeclamp =
     (let ds = max 1 (max \<bar>dsdx\<bar> \<bar>dsdy\<bar>);
          dt = max 1 (max \<bar>dtdx\<bar> \<bar>dtdy\<bar>);
          ds_inv = fdiv 1 ds;
          dt_inv = fdiv 1 dt;
          wrap' = snd (snd (snd (snd
                    (sample_support src s t dsdx dtdx dsdy dtdy filt wrap edgeclamp))));
          nc = nat (ib_nchannels src);
          st = fold (\<lambda>p. accum (feval filt (fmul ds_inv (fsub (fadd (i2f (fst p)) 0.5) s))
                                              (fmul dt_inv (fsub (fadd (i2f (fst (snd p))) 0.5) t)))
                                (pixel_at src wrap' p))
                    (sample_pixels src s t dsdx dtdx dsdy dtdy filt wrap edgeclamp)
                    (replicate nc 0, 0);
          total_w = snd st
      in if total_w > 0 then map (\<lambda>a. fdiv a total_w) (fst st) else replicate nc 0)"

subsection \<open>The warp kernel\<close>

text \<open>
  \<^verbatim>\<open>Imath::M33f::inverse()\<close>: the matrix of cofactors divided by the determinant; a
  singular matrix gives the identity.
\<close>

definition M33f_identity :: M33f where
  "M33f_identity = M33f 1 0 0  0 1 0  0 0 1"

fun M33f_inverse :: "M33f \<Rightarrow> M33f" where
  "M33f_inverse (M33f a b c d e f g h i) =
     (let s00 = e * i - h * f; s01 = h * c - b * i; s02 = b * f - e * c;
          s10 = g * f - d * i; s11 = a * i - g * c; s12 = d * c - a * f;
          s20 = d * h - g * e; s21 = g * b - a * h; s22 = a * e - d * b;
          r = a * s00 + b * s10 + c * s20
      in if r = 0 then M33f_identity
         else M33f (s00 / r) (s01 / r) (s02 / r)
                   (s10 / r) (s11 / r) (s12 / r)
                   (s20 / r) (s21 / r) (s22 / r))"

text \<open>
  A loop whose body can fail: the first failure ends it. A failure (\<open>None\<close>) stands for
  an access outside an array, where the C++ has no defined result.
\<close>

fun foldM :: "('a \<Rightarrow> 's \<Rightarrow> 's option) \<Rightarrow> 'a list \<Rightarrow> 's \<Rightarrow> 's option" where
  "foldM f [] st = Some st"
| "foldM f (p # ps) st = (case f p st of None \<Rightarrow> None | Some st' \<Rightarrow> foldM f ps st')"

text \<open>
  \<^verbatim>\<open>filtered_sample\<close> writes \<open>result[0 .. nc)\<close>, \<open>nc\<close> the source's channel count, into the
  caller's array \<open>pel\<close>, which has room for the destination's channel count.
\<close>

definition store_result :: "real list \<Rightarrow> real list \<Rightarrow> real list option" where
  "store_result res pel =
     (if length res \<le> length pel then Some (res @ drop (length res) pel) else None)"

text \<open>\<^verbatim>\<open>out[c] = v\<close> for the iterator \<open>out\<close> standing at pixel \<open>p\<close>.\<close>

definition setpixel :: "ImageBuf \<Rightarrow> int \<times> int \<times> int \<Rightarrow> nat \<Rightarrow> real \<Rightarrow> ImageBuf" where
  "setpixel ib p c v =
     ib\<lparr>pixels := (\<lambda>x y z c'. if (x, y, z) = p \<and> c' = c then v else pixels ib x y z c')\<rparr>"

text \<open>\<^verbatim>\<open>for (int c = roi.chbegin; c < roi.chend; ++c) out[c] = pel[c];\<close>\<close>

fun copy_channels :: "real list \<Rightarrow> int \<times> int \<times> int \<Rightarrow> int list \<Rightarrow> ImageBuf \<Rightarrow> ImageBuf option" where
  "copy_channels pel p [] dst = Some dst"
| "copy_channels pel p (c # cs) dst =
     (if 0 \<le> c \<and> nat c < length pel
      then copy_channels pel p cs (setpixel dst p (nat c) (pel ! nat c))
      else None)"

text \<open>The body of the loop over the destination pixels; the state is \<open>(dst, pel)\<close>.\<close>

definition warp_pixel ::
  "ImageBuf \<Rightarrow> M33f \<Rightarrow> Filter2D \<Rightarrow> WrapMode \<Rightarrow> bool \<Rightarrow> ROI \<Rightarrow> int \<times> int \<times> int
     \<Rightarrow> ImageBuf \<times> real list \<Rightarrow> (ImageBuf \<times> real list) option" where
  "warp_pixel src Minv filt wrap edgeclamp roi p st =
     (let x = \<lparr>val = real_of_int (fst p) + 0.5, dx = 1, dy = 0\<rparr>;
          y = \<lparr>val = real_of_int (fst (snd p)) + 0.5, dx = 0, dy = 1\<rparr>;
          xy = robust_multVecMatrix Minv x y;
          res = filtered_sample src (val (fst xy)) (val (snd xy)) (dx (fst xy)) (dx (snd xy))
                                (dy (fst xy)) (dy (snd xy)) filt wrap edgeclamp
      in case store_result res (snd st) of
           None \<Rightarrow> None
         | Some pel \<Rightarrow>
             (case copy_channels pel p [chbegin roi..chend roi - 1] (fst st) of
                None \<Rightarrow> None
              | Some dst \<Rightarrow> Some (dst, pel)))"

text \<open>
  \<^verbatim>\<open>warp_\<close> (a name cannot end in an underscore here), the kernel run over the whole ROI as one tile (\<^verbatim>\<open>parallel_image\<close> with a
  single thread). It returns the destination and the kernel's \<^verbatim>\<open>true\<close>.
\<close>

definition warp_kernel ::
  "ImageBuf \<Rightarrow> ImageBuf \<Rightarrow> M33f \<Rightarrow> Filter2D \<Rightarrow> WrapMode \<Rightarrow> bool \<Rightarrow> ROI
     \<Rightarrow> (ImageBuf \<times> bool) option" where
  "warp_kernel dst src M filt wrap edgeclamp roi =
     (let nc = ib_nchannels dst;
          pel = replicate (nat nc) 0;
          Minv = M33f_inverse M
      in case foldM (warp_pixel src Minv filt wrap edgeclamp roi) (roi_pixels roi) (dst, pel) of
           None \<Rightarrow> None
         | Some st \<Rightarrow> Some (fst st, True))"

text \<open>
  The source point of a destination pixel, and the contents of \<open>pel\<close> once its sample
  is stored: the sample's channels, then zeros up to the destination's channel count.
\<close>

definition warp_point :: "M33f \<Rightarrow> int \<times> int \<times> int \<Rightarrow> Dual2 \<times> Dual2" where
  "warp_point Minv p =
     robust_multVecMatrix Minv \<lparr>val = real_of_int (fst p) + 0.5, dx = 1, dy = 0\<rparr>
                               \<lparr>val = real_of_int (fst (snd p)) + 0.5, dx = 0, dy = 1\<rparr>"

definition warp_value ::
  "ImageBuf \<Rightarrow> M33f \<Rightarrow> Filter2D \<Rightarrow> WrapMode \<Rightarrow> bool \<Rightarrow> nat \<Rightarrow> int \<times> int \<times> int \<Rightarrow> real list" where
  "warp_value src Minv filt wrap edgeclamp nc p =
     (let xy = warp_point Minv p;
          res = filtered_sample src (val (fst xy)) (val (snd xy)) (dx (fst xy)) (dx (snd xy))
                                (dy (fst xy)) (dy (snd xy)) filt wrap edgeclamp
      in res @ replicate (nc - length res) 0)"

subsection \<open>Collaborators of the public operations\<close>

text \<open>
  The preparation step \<^verbatim>\<open>IBAprep\<close> and the filter catalogue (\<^verbatim>\<open>Filter2D::num_filters\<close>,
  \<^verbatim>\<open>get_filterdesc\<close>, \<^verbatim>\<open>create\<close>) are not part of this file; the operations take them
  as parameters. \<open>IBAprep ext flags roi dst src\<close> returns its \<^verbatim>\<open>bool\<close> together with the
  ROI and the destination it leaves. A ROI argument that may be undefined
  (\<^verbatim>\<open>!roi.defined()\<close>) is an option. \<open>Filter2D_create\<close> returns \<open>None\<close> for the null pointer.
  Pixel formats are not modelled, so the dispatch macro is the call of the kernel.
\<close>

datatype prepflag = IBAprep_NO_SUPPORT_VOLUME | IBAprep_NO_COPY_ROI_FULL | IBAprep_SUPPORT_DEEP

record FilterDesc =
  fd_name :: string
  fd_width :: real

record Externals =
  IBAprep :: "prepflag list \<Rightarrow> ROI option \<Rightarrow> ImageBuf \<Rightarrow> ImageBuf \<Rightarrow> bool \<times> ROI \<times> ImageBuf"
  filterdescs :: "FilterDesc list"
  Filter2D_create :: "string \<Rightarrow> real \<Rightarrow> real \<Rightarrow> Filter2D option"

subsection \<open>warp and rotate\<close>

text \<open>\<^verbatim>\<open>warp_impl\<close>; \<open>None\<close> where the C++ has no defined result.\<close>

definition warp_impl ::
  "Externals \<Rightarrow> ImageBuf \<Rightarrow> ImageBuf \<Rightarrow> M33f \<Rightarrow> Filter2D option \<Rightarrow> bool \<Rightarrow> WrapMode \<Rightarrow> bool
     \<Rightarrow> ROI option \<Rightarrow> (ImageBuf \<times> bool) option" where
  "warp_impl ext dst src M filt recompute_roi wrap edgeclamp roi =
     (let dst_roi =
            (if initialized dst
             then Some (case roi of Some r \<Rightarrow> r | None \<Rightarrow> ib_roi dst)
             else (case roi of
                     Some r \<Rightarrow> Some r
                   | None \<Rightarrow> if recompute_roi then transform M (ib_roi src)
                             else Some (ib_roi src)))
      in case dst_roi of
           None \<Rightarrow> None
         | Some dst_roi0 \<Rightarrow>
             (let dst_roi1 = dst_roi0\<lparr>chend := min (chend dst_roi0) (ib_nchannels src)\<rparr>;
                  prep = IBAprep ext [IBAprep_NO_SUPPORT_VOLUME] (Some dst_roi1) dst src
              in if \<not> fst prep then Some (snd (snd prep), False)
                 else (case (case filt of
                               Some f \<Rightarrow> Some f
                             | None \<Rightarrow> Filter2D_create ext ''lanczos3'' 6 6) of
                         None \<Rightarrow> None
                       | Some f \<Rightarrow>
                           warp_kernel (snd (snd prep)) src M f wrap edgeclamp (fst (snd prep)))))"

text \<open>\<^verbatim>\<open>ImageBufAlgo::warp(dst, src, M, filter, recompute_roi, wrap, roi, nthreads)\<close>\<close>

definition warp ::
  "Externals \<Rightarrow> ImageBuf \<Rightarrow> ImageBuf \<Rightarrow> M33f \<Rightarrow> Filter2D option \<Rightarrow> bool \<Rightarrow> WrapMode
     \<Rightarrow> ROI option \<Rightarrow> (ImageBuf \<times> bool) option" where
  "warp ext dst src M filt recompute_roi wrap roi =
     warp_impl ext dst src M filt recompute_roi wrap False roi"

text \<open>
  Imath's matrix operations in the row-vector convention: the product, \<^verbatim>\<open>M.translate(t)\<close>
  (which puts the translation before \<open>M\<close>), \<^verbatim>\<open>setRotation(r)\<close> and \<^verbatim>\<open>M.rotate(r)\<close>.
\<close>

fun M33f_mul :: "M33f \<Rightarrow> M33f \<Rightarrow> M33f" where
  "M33f_mul (M33f a b c d e f g h i) (M33f a' b' c' d' e' f' g' h' i') =
     M33f (a * a' + b * d' + c * g') (a * b' + b * e' + c * h') (a * c' + b * f' + c * i')
          (d * a' + e * d' + f * g') (d * b' + e * e' + f * h') (d * c' + e * f' + f * i')
          (g * a' + h * d' + i * g') (g * b' + h * e' + i * h') (g * c' + h * f' + i * i')"

fun M33f_translate :: "M33f \<Rightarrow> V2f \<Rightarrow> M33f" where
  "M33f_translate (M33f a b c d e f g h i) t =
     M33f a b c d e f
          (g + (fst t * a + snd t * d)) (h + (fst t * b + snd t * e)) (i + (fst t * c + snd t * f))"

definition M33f_setRotation :: "real \<Rightarrow> M33f" where
  "M33f_setRotation r = M33f (cos r) (sin r) 0  (- sin r) (cos r) 0  0 0 1"

definition M33f_rotate :: "M33f \<Rightarrow> real \<Rightarrow> M33f" where
  "M33f_rotate M r = M33f_mul M (M33f_setRotation r)"

text \<open>\<^verbatim>\<open>ImageBufAlgo::rotate\<close> with an explicit centre and a filter pointer.\<close>

definition rotate_about ::
  "Externals \<Rightarrow> ImageBuf \<Rightarrow> ImageBuf \<Rightarrow> real \<Rightarrow> real \<Rightarrow> real \<Rightarrow> Filter2D option \<Rightarrow> bool
     \<Rightarrow> ROI option \<Rightarrow> (ImageBuf \<times> bool) option" where
  "rotate_about ext dst src angle center_x center_y filt recompute_roi roi =
     (let M0 = M33f_translate M33f_identity (- center_x, - center_y);
          M1 = M33f_rotate M0 angle;
          M2 = M33f_mul M1 (M33f_translate M33f_identity (center_x, center_y))
      in warp ext dst src M2 filt recompute_roi WrapBlack roi)"

text \<open>\<^verbatim>\<open>ImageBufAlgo::rotate\<close> without a centre (filter pointer).\<close>

definition rotate ::
  "Externals \<Rightarrow> ImageBuf \<Rightarrow> ImageBuf \<Rightarrow> real \<Rightarrow> Filter2D option \<Rightarrow> bool
     \<Rightarrow> ROI option \<Rightarrow> (ImageBuf \<times> bool) option" where
  "rotate ext dst src angle filt recompute_roi roi =
     (let src_roi_full = ib_roi_full src;
          center_x = 0.5 * real_of_int (xbegin src_roi_full + xend src_roi_full);
          center_y = 0.5 * real_of_int (ybegin src_roi_full + yend src_roi_full)
      in rotate_about ext dst src angle center_x center_y filt recompute_roi roi)"

text \<open>
  The statement side of rotate: the translation matrix \<open>T\<close>, the rotation about a centre
  written as the product that translates by \<open>-c\<close>, rotates, and translates by \<open>c\<close>, and the
  centre as the specification words it.
\<close>

definition T_matrix :: "real \<Rightarrow> real \<Rightarrow> M33f" where
  "T_matrix tx ty = M33f 1 0 0  0 1 0  tx ty 1"

definition rotation_about :: "real \<Rightarrow> real \<Rightarrow> real \<Rightarrow> M33f" where
  "rotation_about angle cx cy =
     M33f_mul (M33f_mul (T_matrix (- cx) (- cy)) (M33f_setRotation angle)) (T_matrix cx cy)"

definition spec_center :: "ImageBuf \<Rightarrow> real \<times> real" where
  "spec_center src =
     (0.5 * real_of_int (xbegin (ib_roi_full src) + xend (ib_roi_full src)),
      0.5 * real_of_int (ybegin (ib_roi_full src) + ybegin (ib_roi_full src)))"

subsection \<open>Choosing the resize filter\<close>



subsection \<open>resample\<close>

text \<open>
  The source coordinate of a destination coordinate, as both resample and resize compute
  it: \<open>s = (x - dstfx + 0.5) * dstpixelwidth\<close>, \<open>src_xf = srcfx + s * srcfw\<close>, with
  \<open>dstpixelwidth = 1 / dstfw\<close>. The arguments are the full-window origin and size of the
  destination and of the source along the axis.
\<close>

definition src_coord :: "int \<Rightarrow> int \<Rightarrow> int \<Rightarrow> int \<Rightarrow> int \<Rightarrow> real" where
  "src_coord dstf dstfsize srcf srcfsize x =
     (let dstpixelwidth = 1 / real_of_int dstfsize;
          s = (real_of_int x - real_of_int dstf + 0.5) * dstpixelwidth
      in real_of_int srcf + s * real_of_int srcfsize)"

definition src_xf :: "ImageBuf \<Rightarrow> ImageBuf \<Rightarrow> int \<Rightarrow> real" where
  "src_xf dst src x =
     src_coord (full_x (spec dst)) (full_width (spec dst)) (full_x (spec src)) (full_width (spec src)) x"

definition src_yf :: "ImageBuf \<Rightarrow> ImageBuf \<Rightarrow> int \<Rightarrow> real" where
  "src_yf dst src y =
     src_coord (full_y (spec dst)) (full_height (spec dst)) (full_y (spec src)) (full_height (spec src)) y"













subsection \<open>The resize kernel\<close>

text \<open>
  Modelled from the spec: the buffer's const iterator \<open>srcpel\<close> (imagebuf.h is not among
  the sources). It stands at a pixel of a rectangular range and steps through the range
  in raster order; \<^verbatim>\<open>rerange\<close> puts it at the first pixel of a new range, \<^verbatim>\<open>pos\<close> at a
  given pixel. Once it has stepped past the last pixel of its range it has nothing to
  read. A read of \<open>n\<close> channels needs the source to have them.
\<close>

datatype SrcIter =
  SrcIter (it_range: "int \<times> int \<times> int \<times> int \<times> int \<times> int") (it_pos: "int \<times> int \<times> int")
          (it_finished: bool)

definition rerange :: "int \<Rightarrow> int \<Rightarrow> int \<Rightarrow> int \<Rightarrow> int \<Rightarrow> int \<Rightarrow> SrcIter" where
  "rerange xb xe yb ye zb ze =
     SrcIter (xb, xe, yb, ye, zb, ze) (xb, yb, zb) (xe \<le> xb \<or> ye \<le> yb \<or> ze \<le> zb)"

definition iter_pos :: "SrcIter \<Rightarrow> int \<times> int \<times> int \<Rightarrow> SrcIter" where
  "iter_pos it p = SrcIter (it_range it) p False"

definition iter_incr :: "SrcIter \<Rightarrow> SrcIter" where
  "iter_incr it =
     (case it_range it of (xb, xe, yb, ye, zb, ze) \<Rightarrow>
      case it_pos it of (x, y, z) \<Rightarrow>
        if it_finished it then it
        else if x + 1 < xe then SrcIter (it_range it) (x + 1, y, z) False
        else if y + 1 < ye then SrcIter (it_range it) (xb, y + 1, z) False
        else if z + 1 < ze then SrcIter (it_range it) (xb, yb, z + 1) False
        else SrcIter (it_range it) (xb, yb, z + 1) True)"

definition iter_get :: "ImageBuf \<Rightarrow> WrapMode \<Rightarrow> SrcIter \<Rightarrow> nat \<Rightarrow> real list option" where
  "iter_get src wrap it n =
     (if it_finished it \<or> int n > ib_nchannels src then None
      else (case it_pos it of (x, y, z) \<Rightarrow> Some (map (iter_read src wrap x y z) [0..<n])))"

text \<open>
  Modelled from the spec: \<^verbatim>\<open>floorfrac(x, &i)\<close> (fmath.h is not among the sources) gives
  the integer \<open>floor x\<close> and returns the fraction \<open>x - floor x\<close>.
\<close>

definition floorfrac :: "real \<Rightarrow> real \<times> int" where
  "floorfrac x = (x - real_of_int \<lfloor>x\<rfloor>, \<lfloor>x\<rfloor>)"

text \<open>The constants computed at the head of the kernel.\<close>

definition resize_xratio :: "ImageBuf \<Rightarrow> ImageBuf \<Rightarrow> real" where
  "resize_xratio dst src =
     real_of_int (full_width (spec dst)) / real_of_int (full_width (spec src))"

definition resize_yratio :: "ImageBuf \<Rightarrow> ImageBuf \<Rightarrow> real" where
  "resize_yratio dst src =
     real_of_int (full_height (spec dst)) / real_of_int (full_height (spec src))"

definition resize_radi :: "Filter2D \<Rightarrow> ImageBuf \<Rightarrow> ImageBuf \<Rightarrow> int" where
  "resize_radi filt dst src = \<lceil>(width filt / 2) / resize_xratio dst src\<rceil>"

definition resize_radj :: "Filter2D \<Rightarrow> ImageBuf \<Rightarrow> ImageBuf \<Rightarrow> int" where
  "resize_radj filt dst src = \<lceil>(width filt / 2) / resize_yratio dst src\<rceil>"

text \<open>
  The tap weights before normalisation, for a destination column and for a destination
  row, and the normalisation \<^verbatim>\<open>if (totalweight != 0) w[i] /= totalweight\<close>. The running
  sum of the weights is written \<open>sum_list\<close>.
\<close>

definition xtaps_raw :: "Filter2D \<Rightarrow> ImageBuf \<Rightarrow> ImageBuf \<Rightarrow> int \<Rightarrow> real list" where
  "xtaps_raw filt dst src x =
     (let radi = resize_radi filt dst src;
          xtaps = 2 * radi + 1;
          src_xf_frac = fst (floorfrac (src_xf dst src x))
      in map (\<lambda>i. xfilt filt (resize_xratio dst src *
                               (real_of_int i - real_of_int radi - (src_xf_frac - 0.5))))
             [0..xtaps - 1])"

definition ytaps_raw :: "Filter2D \<Rightarrow> ImageBuf \<Rightarrow> ImageBuf \<Rightarrow> int \<Rightarrow> real list" where
  "ytaps_raw filt dst src y =
     (let radj = resize_radj filt dst src;
          ytaps = 2 * radj + 1;
          src_yf_frac = fst (floorfrac (src_yf dst src y))
      in map (\<lambda>j. yfilt filt (resize_yratio dst src *
                               (real_of_int j - real_of_int radj - (src_yf_frac - 0.5))))
             [0..ytaps - 1])"

definition normalize_taps :: "real list \<Rightarrow> real list" where
  "normalize_taps ws = (let total = sum_list ws in if total \<noteq> 0 then map (\<lambda>w. w / total) ws else ws)"

text \<open>\<open>pel[c] += w * srcpel[c]\<close> for the \<open>nchannels\<close> channels.\<close>

definition add_weighted :: "real \<Rightarrow> real list \<Rightarrow> real list \<Rightarrow> real list" where
  "add_weighted w px pel = map2 (\<lambda>a v. a + w * v) pel px"

text \<open>
  The separable path, one tap: \<^verbatim>\<open>w = wy * xfiltval[i]; if (w) pel += w * srcpel; ++srcpel\<close>.
  The state is the iterator and \<open>pel\<close>.
\<close>

definition sep_tap ::
  "ImageBuf \<Rightarrow> nat \<Rightarrow> real \<Rightarrow> real \<Rightarrow> SrcIter \<times> real list \<Rightarrow> (SrcIter \<times> real list) option" where
  "sep_tap src nch wy wx st =
     (let w = wy * wx
      in if w \<noteq> 0
         then (case iter_get src WrapClamp (fst st) nch of
                 None \<Rightarrow> None
               | Some px \<Rightarrow> Some (iter_incr (fst st), add_weighted w px (snd st)))
         else Some (iter_incr (fst st), snd st))"

text \<open>
  One source row \<open>j\<close>: a zero \<open>wy\<close> moves the iterator to the next line; otherwise the taps
  \<open>xfiltval[0 .. xtaps)\<close> are applied in order.
\<close>

definition sep_row ::
  "ImageBuf \<Rightarrow> nat \<Rightarrow> real list \<Rightarrow> real \<Rightarrow> SrcIter \<times> real list \<Rightarrow> (SrcIter \<times> real list) option" where
  "sep_row src nch xfiltval wy st =
     (if wy = 0
      then Some (iter_pos (fst st) (case it_pos (fst st) of (x, y, z) \<Rightarrow> (x, y + 1, z)), snd st)
      else foldM (sep_tap src nch wy) xfiltval st)"

text \<open>
  The value written to the output pixel of column \<open>x\<close> in the separable path. The rows
  \<open>j = -radj .. radj\<close> take their weights \<open>yfiltval[j + radj]\<close> in order.
\<close>

definition sep_pixel ::
  "ImageBuf \<Rightarrow> ImageBuf \<Rightarrow> nat \<Rightarrow> int \<Rightarrow> int \<Rightarrow> real list \<Rightarrow> real list \<Rightarrow> real \<Rightarrow> int \<Rightarrow> int
     \<Rightarrow> real list option" where
  "sep_pixel dst src nch radi radj xfiltval yfiltval totalweight_y x src_y =
     (let src_x = \<lfloor>src_xf dst src x\<rfloor>;
          pel0 = replicate nch 0;
          totalweight_x = sum_list xfiltval;
          acc = (if totalweight_x \<noteq> 0
                 then (case foldM (sep_row src nch xfiltval) yfiltval
                               (rerange (src_x - radi) (src_x + radi + 1)
                                        (src_y - radj) (src_y + radj + 1) 0 1, pel0) of
                         None \<Rightarrow> None
                       | Some st \<Rightarrow> Some (snd st))
                 else Some pel0)
      in case acc of
           None \<Rightarrow> None
         | Some pel \<Rightarrow> Some (if totalweight_y = 0 then replicate nch 0 else pel))"

text \<open>
  The general path, one source pixel of the double loop over \<open>j\<close> and \<open>i\<close>. The state is
  the iterator, \<open>pel\<close> and \<open>totalweight\<close>.
\<close>

definition gen_tap ::
  "ImageBuf \<Rightarrow> Filter2D \<Rightarrow> nat \<Rightarrow> real \<Rightarrow> real \<Rightarrow> real \<Rightarrow> real \<Rightarrow> int \<Rightarrow> int
     \<Rightarrow> SrcIter \<times> real list \<times> real \<Rightarrow> (SrcIter \<times> real list \<times> real) option" where
  "gen_tap src filt nch xratio yratio src_xf_frac src_yf_frac j i st =
     (let w = feval filt (xratio * (real_of_int i - (src_xf_frac - 0.5)))
                         (yratio * (real_of_int j - (src_yf_frac - 0.5)))
      in if w \<noteq> 0
         then (case iter_get src WrapClamp (fst st) nch of
                 None \<Rightarrow> None
               | Some px \<Rightarrow> Some (iter_incr (fst st), add_weighted w px (fst (snd st)),
                                  snd (snd st) + w))
         else Some (iter_incr (fst st), snd st))"

text \<open>
  The value written to the output pixel in the general path. The iterator's range is
  \<^verbatim>\<open>rerange(src_x - radi, src_x + radi + 1, src_y - radi, src_y + radi + 1, 0, 1, WrapClamp)\<close>.
\<close>

definition gen_pixel ::
  "ImageBuf \<Rightarrow> ImageBuf \<Rightarrow> Filter2D \<Rightarrow> nat \<Rightarrow> int \<Rightarrow> int \<Rightarrow> int \<Rightarrow> real \<Rightarrow> int \<Rightarrow> real list option" where
  "gen_pixel dst src filt nch radi radj x src_yf_frac src_y =
     (let ff = floorfrac (src_xf dst src x);
          src_xf_frac = fst ff;
          src_x = snd ff;
          pel0 = replicate nch 0;
          it = rerange (src_x - radi) (src_x + radi + 1) (src_y - radi) (src_y + radi + 1) 0 1
      in case foldM (\<lambda>j. foldM (gen_tap src filt nch (resize_xratio dst src) (resize_yratio dst src)
                                         src_xf_frac src_yf_frac j) [- radi..radi])
                    [- radj..radj] (it, pel0, 0) of
           None \<Rightarrow> None
         | Some st \<Rightarrow>
             Some (if snd (snd st) = 0 then replicate nch 0
                   else map (\<lambda>a. a / snd (snd st)) (fst (snd st))))"

text \<open>
  The loop over the columns of a row, and the kernel \<^verbatim>\<open>resize_\<close> over the whole ROI as
  one tile; a separable filter has its normalised horizontal taps tabulated for every
  column first. As in \<open>resample\<close>, the output iterator steps through the ROI beside the nested loop:
  the state is the destination and the pixels \<open>out\<close> has still to visit. All the
  channels \<open>0 .. nchannels - 1\<close> of the output pixel are written.
\<close>

definition resize_out ::
  "nat \<Rightarrow> real list option \<Rightarrow> ImageBuf \<times> (int \<times> int \<times> int) list
     \<Rightarrow> (ImageBuf \<times> (int \<times> int \<times> int) list) option" where
  "resize_out nch v st =
     (case snd st of
        [] \<Rightarrow> None
      | p # rest \<Rightarrow>
          (case v of
             None \<Rightarrow> None
           | Some pel \<Rightarrow>
               (case copy_channels pel p [0..int nch - 1] (fst st) of
                  None \<Rightarrow> None
                | Some dst' \<Rightarrow> Some (dst', rest))))"

definition resize_row ::
  "ImageBuf \<Rightarrow> ImageBuf \<Rightarrow> Filter2D \<Rightarrow> ROI \<Rightarrow> real list list \<Rightarrow> int
     \<Rightarrow> ImageBuf \<times> (int \<times> int \<times> int) list \<Rightarrow> (ImageBuf \<times> (int \<times> int \<times> int) list) option" where
  "resize_row dst src filt roi xfiltval_all y st =
     (let nch = nat (nchannels (spec dst));
          radi = resize_radi filt dst src;
          radj = resize_radj filt dst src;
          ff = floorfrac (src_yf dst src y);
          src_yf_frac = fst ff;
          src_y = snd ff
      in if separable filt
         then (let totalweight_y = sum_list (ytaps_raw filt dst src y);
                   yfiltval = normalize_taps (ytaps_raw filt dst src y)
               in foldM (\<lambda>x. resize_out nch
                                (sep_pixel dst src nch radi radj
                                   (xfiltval_all ! nat (x - xbegin roi)) yfiltval totalweight_y
                                   x src_y))
                        [xbegin roi..xend roi - 1] st)
         else foldM (\<lambda>x. resize_out nch (gen_pixel dst src filt nch radi radj x src_yf_frac src_y))
                    [xbegin roi..xend roi - 1] st)"

definition resize_kernel :: "ImageBuf \<Rightarrow> ImageBuf \<Rightarrow> Filter2D \<Rightarrow> ROI \<Rightarrow> (ImageBuf \<times> bool) option" where
  "resize_kernel dst src filt roi =
     (let xfiltval_all =
            (if separable filt
             then map (\<lambda>x. normalize_taps (xtaps_raw filt dst src x)) [xbegin roi..xend roi - 1]
             else [])
      in case foldM (resize_row dst src filt roi xfiltval_all) [ybegin roi..yend roi - 1]
                    (dst, roi_pixels roi) of
           None \<Rightarrow> None
         | Some st \<Rightarrow> Some (fst st, True))"



text \<open>The state of the iterator after the last tap of a row.\<close>

definition next_row :: "int \<times> int \<times> int \<times> int \<times> int \<times> int \<Rightarrow> int \<Rightarrow> int \<Rightarrow> SrcIter" where
  "next_row rng y z =
     (case rng of (xb, xe, yb, ye, zb, ze) \<Rightarrow>
        if y + 1 < ye then SrcIter rng (xb, y + 1, z) False
        else if z + 1 < ze then SrcIter rng (xb, yb, z + 1) False
        else SrcIter rng (xb, yb, z + 1) True)"


text \<open>
  The weight of the tap \<open>(i, j)\<close> in the general path, and the accumulation over the taps
  \<open>i = -radi .. radi\<close>, \<open>j = -radj .. radj\<close> in which the tap \<open>(i, j)\<close> weights the clamp-read
  source pixel \<open>(src_x + i, src_y + shift + j)\<close>: the sum divided by the total weight,
  zeros when the total is 0.
\<close>

definition gen_weight :: "ImageBuf \<Rightarrow> ImageBuf \<Rightarrow> Filter2D \<Rightarrow> int \<Rightarrow> int \<Rightarrow> int \<Rightarrow> int \<Rightarrow> real" where
  "gen_weight dst src filt x y i j =
     feval filt (resize_xratio dst src *
                   (real_of_int i - (fst (floorfrac (src_xf dst src x)) - 0.5)))
                (resize_yratio dst src *
                   (real_of_int j - (fst (floorfrac (src_yf dst src y)) - 0.5)))"

definition rect_accum ::
  "ImageBuf \<Rightarrow> ImageBuf \<Rightarrow> Filter2D \<Rightarrow> nat \<Rightarrow> int \<Rightarrow> int \<Rightarrow> int \<Rightarrow> int \<Rightarrow> int \<Rightarrow> real list" where
  "rect_accum dst src filt nch radi radj x y shift =
     (let src_x = snd (floorfrac (src_xf dst src x));
          src_y = snd (floorfrac (src_yf dst src y));
          totalweight = sum_list (map (\<lambda>j. sum_list (map (\<lambda>i. gen_weight dst src filt x y i j)
                                                          [- radi..radi]))
                                      [- radj..radj])
      in if totalweight = 0 then replicate nch 0
         else map (\<lambda>c. sum_list (map (\<lambda>j. sum_list (map (\<lambda>i.
                           gen_weight dst src filt x y i j *
                           iter_read src WrapClamp (src_x + i) (src_y + shift + j) 0 c)
                         [- radi..radi])) [- radj..radj]) / totalweight)
                  [0..<nch])"

text \<open>
  The general path as the specification words it: the same support rectangle as the
  separable path, \<open>[src_x - radi, src_x + radi] \<times> [src_y - radj, src_y + radj]\<close> under
  clamp wrap, the 2D filter evaluated at each source pixel, a running total weight, and
  the sum divided by the total at the end (zeros when the total is 0).
\<close>

definition spec_gen_pixel :: "ImageBuf \<Rightarrow> ImageBuf \<Rightarrow> Filter2D \<Rightarrow> nat \<Rightarrow> int \<Rightarrow> int \<Rightarrow> real list" where
  "spec_gen_pixel dst src filt nch x y =
     rect_accum dst src filt nch (resize_radi filt dst src) (resize_radj filt dst src) x y 0"

text \<open>Membership of a pixel in the half-open ranges of a ROI.\<close>

definition in_roi :: "ROI \<Rightarrow> int \<Rightarrow> int \<Rightarrow> int \<Rightarrow> bool" where
  "in_roi roi x y z \<longleftrightarrow>
     xbegin roi \<le> x \<and> x < xend roi \<and> ybegin roi \<le> y \<and> y < yend roi \<and>
     zbegin roi \<le> z \<and> z < zend roi"

text \<open>
  The support as the specification words it: the closed rectangle of the radii
  \<open>rs = 0.5 * ds * filter.width\<close> and \<open>rt = 0.5 * dt * filter.height\<close>.
\<close>

definition in_spec_support ::
  "Filter2D \<Rightarrow> real \<Rightarrow> real \<Rightarrow> real \<Rightarrow> real \<Rightarrow> real \<Rightarrow> real \<Rightarrow> int \<Rightarrow> int \<Rightarrow> bool" where
  "in_spec_support filt s t dsdx dtdx dsdy dtdy x y =
     (let ds = max 1 (max \<bar>dsdx\<bar> \<bar>dsdy\<bar>);
          dt = max 1 (max \<bar>dtdx\<bar> \<bar>dtdy\<bar>);
          rs = 0.5 * ds * width filt;
          rt = 0.5 * dt * height filt
      in \<lfloor>s - rs\<rfloor> \<le> x \<and> x \<le> \<lceil>s + rs\<rceil> \<and> \<lfloor>t - rt\<rfloor> \<le> y \<and> y \<le> \<lceil>t + rt\<rceil>)"

subsection \<open>Concrete inputs\<close>

text \<open>
  A scale by the float \<^verbatim>\<open>2.8f\<close>, which is \<open>11744051 / 2^22\<close>, and a 3 x 1 ROI of 3
  channels.
\<close>

definition M_scale28 :: M33f where
  "M_scale28 = M33f (11744051 / 4194304) 0 0  0 (11744051 / 4194304) 0  0 0 1"

definition R_3x1 :: ROI where "R_3x1 = mkROI 0 3 0 1 0 1 0 3"

text \<open>A box filter of the given width and height.\<close>

definition box_filter :: "real \<Rightarrow> real \<Rightarrow> Filter2D" where
  "box_filter w h =
     \<lparr>fname = ''box'', width = w, height = h, separable = True,
      feval = (\<lambda>x y. (if \<bar>x\<bar> \<le> w / 2 then 1 else 0) * (if \<bar>y\<bar> \<le> h / 2 then 1 else 0)),
      xfilt = (\<lambda>x. if \<bar>x\<bar> \<le> w / 2 then 1 else 0),
      yfilt = (\<lambda>y. if \<bar>y\<bar> \<le> h / 2 then 1 else 0)\<rparr>"

text \<open>A flat image whose data window and full window are both \<open>w x h\<close> at \<open>(x0, y0)\<close>.\<close>

definition mkspec :: "int \<Rightarrow> int \<Rightarrow> int \<Rightarrow> int \<Rightarrow> int \<Rightarrow> ImageSpec" where
  "mkspec x0 y0 w h nc =
     \<lparr>spec_x = x0, spec_y = y0, spec_z = 0, spec_width = w, spec_height = h, spec_depth = 1,
      full_x = x0, full_y = y0, full_width = w, full_height = h, nchannels = nc,
      chan_uint32 = (\<lambda>c. False)\<rparr>"

definition mkimage :: "ImageSpec \<Rightarrow> (int \<Rightarrow> int \<Rightarrow> int \<Rightarrow> nat \<Rightarrow> real) \<Rightarrow> ImageBuf" where
  "mkimage sp px =
     \<lparr>spec = sp, initialized = True, deep = False, pixels = px,
      deep_samples = (\<lambda>x y z. 0), deep_values = (\<lambda>x y z c s. FloatVal 0), errors = []\<rparr>"

text \<open>
  Images for the warp kernel: a 4 x 4 source of ones around the origin, a 2 x 2
  destination of two channels holding 5, the ROI of the single pixel \<open>(0, 0)\<close>, channel 0,
  and a projective matrix, its own inverse, whose homogeneous coordinate vanishes at the
  centre \<open>(0.5, 0.5)\<close> of that pixel.
\<close>

definition src_ones :: ImageBuf where
  "src_ones = mkimage (mkspec (-2) (-2) 4 4 1) (\<lambda>x y z c. 1)"

definition dst_fives :: ImageBuf where
  "dst_fives = mkimage (mkspec 0 0 2 2 2) (\<lambda>x y z c. 5)"

definition R_pixel0 :: ROI where "R_pixel0 = mkROI 0 1 0 1 0 1 0 1"


text \<open>
  A stand-in for the collaborators: a preparation step that accepts the destination as it
  is, and a catalogue of four names whose filters are boxes of the asked size. Then a
  2 x 2 source that is 1 at pixel \<open>(1, 1)\<close> only, and a 2 x 2 destination of zeros.
\<close>

definition ext_plain :: Externals where
  "ext_plain =
     \<lparr>IBAprep = (\<lambda>flags roi dst src. (True, (case roi of Some r \<Rightarrow> r | None \<Rightarrow> ib_roi dst), dst)),
      filterdescs = [\<lparr>fd_name = ''box'', fd_width = 1\<rparr>, \<lparr>fd_name = ''triangle'', fd_width = 2\<rparr>,
                     \<lparr>fd_name = ''blackman-harris'', fd_width = 3\<rparr>,
                     \<lparr>fd_name = ''lanczos3'', fd_width = 6\<rparr>],
      Filter2D_create = (\<lambda>name w h. Some ((box_filter w h)\<lparr>fname := name\<rparr>))\<rparr>"

definition src_corner :: ImageBuf where
  "src_corner = mkimage (mkspec 0 0 2 2 1) (\<lambda>x y z c. if x = 1 \<and> y = 1 then 1 else 0)"

definition dst_zeros :: ImageBuf where
  "dst_zeros = mkimage (mkspec 0 0 2 2 1) (\<lambda>x y z c. 0)"






text \<open>
  A disk filter (not separable: 1 inside the ellipse of the given width and height), a
  4 x 4 source whose pixels hold their row number, a destination whose full window is
  2 x 4, and the ROI of its pixel \<open>(0, 1)\<close>.
\<close>

definition disk_filter :: "real \<Rightarrow> real \<Rightarrow> Filter2D" where
  "disk_filter w h =
     \<lparr>fname = ''disk'', width = w, height = h, separable = False,
      feval = (\<lambda>x y. if (x / (w * 0.5)) * (x / (w * 0.5)) + (y / (h * 0.5)) * (y / (h * 0.5)) < 1
                      then 1 else 0),
      xfilt = (\<lambda>x. 1), yfilt = (\<lambda>y. 1)\<rparr>"

definition src_rows :: ImageBuf where
  "src_rows = mkimage (mkspec 0 0 4 4 1) (\<lambda>x y z c. real_of_int y)"

definition dst_2x4 :: ImageBuf where
  "dst_2x4 = mkimage (mkspec 0 0 2 4 1) (\<lambda>x y z c. 0)"

definition R_pixel01 :: ROI where "R_pixel01 = mkROI 0 1 1 2 0 1 0 1"

section \<open>Properties\<close>

subsection \<open>Binary32 rounding\<close>

text \<open>
  The exponent search is correct within its fuel, and every \<open>m * 2^k\<close> with
  \<open>|m| < 2^24\<close> in the exponent range of the format is a fixed point of the rounding.
\<close>

lemma bexp_eval:
  "2 \<le> a \<Longrightarrow> bexp (numeral k) a = bexp (pred_numeral k) (a / 2) + 1"
  "a < 1 \<Longrightarrow> bexp (numeral k) a = bexp (pred_numeral k) (a * 2) - 1"
  "1 \<le> a \<Longrightarrow> a < 2 \<Longrightarrow> bexp (numeral k) a = 0"
  by (simp_all add: numeral_eq_Suc)

lemma pow2_cmp:
  fixes a :: real
  assumes "2 powi e \<le> a" and "a < 2 powi f"
  shows "e < f"
proof (rule ccontr)
  assume "\<not> e < f"
  then have "f \<le> e" by simp
  then have "(2::real) powi f \<le> 2 powi e" by (rule power_int_increasing) simp
  with assms show False by linarith
qed

lemma pow2_half: "(2::real) powi (e - 1) = 2 powi e / 2"
  by (simp add: power_int_diff)

lemma pow2_double: "(2::real) powi (e + 1) = 2 powi e * 2"
  by (simp add: power_int_add)

lemma bexp_correct:
  "2 powi e \<le> a \<Longrightarrow> a < 2 powi (e + 1) \<Longrightarrow> \<bar>e\<bar> \<le> int n \<Longrightarrow> bexp n a = e"
proof (induction n arbitrary: a e)
  case 0
  then show ?case by simp
next
  case (Suc n)
  consider "2 \<le> a" | "a < 1" | "1 \<le> a" "a < 2" by linarith
  then show ?case
  proof cases
    case 1
    have "(2::real) powi 1 \<le> a" using 1 by simp
    from pow2_cmp [OF this Suc.prems(2)] have e: "1 \<le> e" by simp
    have "bexp n (a / 2) = e - 1"
    proof (rule Suc.IH)
      show "2 powi (e - 1) \<le> a / 2" using Suc.prems(1) by (simp add: pow2_half)
      show "a / 2 < 2 powi (e - 1 + 1)" using Suc.prems(2) by (simp add: pow2_double)
      show "\<bar>e - 1\<bar> \<le> int n" using e Suc.prems(3) by simp
    qed
    with 1 show ?thesis by simp
  next
    case 2
    have "a < (2::real) powi 0" using 2 by simp
    from pow2_cmp [OF Suc.prems(1) this] have e: "e < 0" .
    have "bexp n (a * 2) = e + 1"
    proof (rule Suc.IH)
      show "2 powi (e + 1) \<le> a * 2" using Suc.prems(1) by (simp add: pow2_double)
      show "a * 2 < 2 powi (e + 1 + 1)" using Suc.prems(2) by (simp only: pow2_double)
      show "\<bar>e + 1\<bar> \<le> int n" using e Suc.prems(3) by simp
    qed
    with 2 show ?thesis by simp
  next
    case 3
    have "(2::real) powi 0 \<le> a" using 3 by simp
    from pow2_cmp [OF this Suc.prems(2)] have "0 \<le> e" by simp
    moreover have "a < (2::real) powi 1" using 3 by simp
    from pow2_cmp [OF Suc.prems(1) this] have "e \<le> 0" by simp
    ultimately show ?thesis using 3 by simp
  qed
qed

lemma bexp_zero: "bexp n 0 = - int n"
  by (induction n) simp_all

lemma round_even_of_int: "round_even (real_of_int z) = z"
  by (simp add: round_even_def)

lemma rnd32_zero: "rnd32 0 = 0"
  by (simp add: rnd32_def Let_def round_even_def)

lemma rnd32_exact:
  assumes m: "\<bar>m\<bar> < 2 ^ 24" and k: "- 149 \<le> k" "k \<le> 100"
  shows "rnd32 (real_of_int m * 2 powi k) = real_of_int m * 2 powi k"
proof (cases "m = 0")
  case True
  then show ?thesis by (simp add: rnd32_zero)
next
  case False
  then have "1 \<le> nat \<bar>m\<bar>" by simp
  from ex_power_ivl1 [OF _ this, of 2] obtain e0 :: nat
    where e0: "2 ^ e0 \<le> nat \<bar>m\<bar>" "nat \<bar>m\<bar> < 2 ^ (e0 + 1)" by auto
  have lo: "(2::real) ^ e0 \<le> real_of_int \<bar>m\<bar>"
  proof -
    from e0(1) have "real (2 ^ e0) \<le> real (nat \<bar>m\<bar>)" by (rule of_nat_mono)
    then show ?thesis by simp
  qed
  have hi: "real_of_int \<bar>m\<bar> < (2::real) ^ (e0 + 1)"
  proof -
    from e0(2) have "real (nat \<bar>m\<bar>) < real (2 ^ (e0 + 1))" by (rule less_imp_of_nat_less)
    then show ?thesis by simp
  qed
  have "real_of_int \<bar>m\<bar> < real_of_int (2 ^ 24)"
    using m by (simp only: of_int_less_iff)
  with lo have "(2::real) ^ e0 < 2 ^ 24" by simp
  then have e24: "e0 < 24" by (simp only: power_strict_increasing_iff)
  define a where "a = \<bar>real_of_int m * 2 powi k\<bar>"
  have a: "a = real_of_int \<bar>m\<bar> * 2 powi k" by (simp add: a_def abs_mult)
  have p: "(0::real) < 2 powi k" by (simp add: zero_less_power_int)
  have "2 powi (int e0 + k) \<le> a"
    using lo p by (simp add: a power_int_add power_int_of_nat)
  moreover have "a < 2 powi (int e0 + k + 1)"
  proof -
    have "a < 2 ^ (e0 + 1) * 2 powi k" using hi p by (simp add: a)
    also have "\<dots> = 2 powi (int e0 + k + 1)"
      by (simp add: power_int_add flip: power_int_of_nat)
    finally show ?thesis .
  qed
  moreover have "\<bar>int e0 + k\<bar> \<le> int 300" using e24 k by simp
  ultimately have b: "bexp 300 a = int e0 + k" by (rule bexp_correct)
  define q where "q = max (int e0 + k) (- 126) - 23"
  have qk: "q \<le> k" using e24 k by (simp add: q_def)
  have "real_of_int m * 2 powi k / 2 powi q = real_of_int m * 2 powi (k - q)"
    by (simp add: power_int_diff)
  also have "\<dots> = real_of_int (m * 2 ^ nat (k - q))"
    using qk by (simp add: power_int_nonneg_exp)
  finally have d: "real_of_int m * 2 powi k / 2 powi q = real_of_int (m * 2 ^ nat (k - q))" .
  have "rnd32 (real_of_int m * 2 powi k) =
          real_of_int (round_even (real_of_int m * 2 powi k / 2 powi q)) * 2 powi q"
    using b by (simp add: rnd32_def Let_def a_def q_def)
  also have "\<dots> = real_of_int (m * 2 ^ nat (k - q)) * 2 powi q"
    unfolding d round_even_of_int ..
  also have "\<dots> = real_of_int m * 2 powi (k - q) * 2 powi q"
    using qk by (simp add: power_int_nonneg_exp)
  also have "\<dots> = real_of_int m * 2 powi k"
    by (simp add: power_int_diff)
  finally show ?thesis .
qed

lemma rnd32_int: "\<bar>m\<bar> < 2 ^ 24 \<Longrightarrow> rnd32 (real_of_int m) = real_of_int m"
  using rnd32_exact [of m 0] by simp

lemma rnd32_half_int: "\<bar>m\<bar> < 2 ^ 24 \<Longrightarrow> rnd32 (real_of_int m / 2) = real_of_int m / 2"
  using rnd32_exact [of m "-1"] by (simp add: power_int_minus field_simps)

text \<open>
  Evaluation of the operations on numerals: the rounding is unfolded only when its
  argument is a rational constant.
\<close>

lemmas rnd32_eval =
  rnd32_zero
  rnd32_def [of 1] rnd32_def [of "- 1"]
  rnd32_def [of "numeral n"] rnd32_def [of "- numeral n"]
  rnd32_def [of "1 / numeral n"] rnd32_def [of "- (1 / numeral n)"]
  rnd32_def [of "numeral m / numeral n"] rnd32_def [of "- (numeral m / numeral n)"]
  for m n

lemmas f32_eval = fadd_def fsub_def fmul_def fdiv_def i2f_def rnd32_eval round_even_def
  bexp_eval Let_def

lemma multVecMatrix_Some:
  "homog_w32 M p \<noteq> 0 \<Longrightarrow> multVecMatrix M p = Some (image_pt32 M p)"
  by (simp add: multVecMatrix_def image_pt32_def homog_w32_def Let_def fadd_def fmul_def fdiv_def)

lemma extendBy_min_max:
  "box_min (extendBy b p) = (min (fst p) (fst (box_min b)), min (snd p) (snd (box_min b)))"
  "box_max (extendBy b p) = (max (fst p) (fst (box_max b)), max (snd p) (snd (box_max b)))"
  by (auto simp: extendBy_def min_def max_def)

lemma set_iter_range:
  "set (iter_range xb xe yb ye zb ze) =
     {(x, y, z). xb \<le> x \<and> x < xe \<and> yb \<le> y \<and> y < ye \<and> zb \<le> z \<and> z < ze}"
  by (force simp: iter_range_def)

subsection \<open>C5: the transformed ROI\<close>

lemma corners_3x1:
  "corner_centers R_3x1 = [(1/2, 1/2), (5/2, 1/2), (1/2, 1/2), (5/2, 1/2)]"
  by (simp add: corner_centers_def R_3x1_def mkROI_def f32_eval)

lemma scale28_w: "homog_w32 M_scale28 (x, 1/2) = 1"
  by (simp add: homog_w32_def M_scale28_def f32_eval)

lemma scale28_pt:
  "image_pt32 M_scale28 (1/2, 1/2) = (11744051 / 8388608, 11744051 / 8388608)"
  "image_pt32 M_scale28 (5/2, 1/2) = (7, 11744051 / 8388608)"
  by (simp_all add: image_pt32_def scale28_w) (simp_all add: M_scale28_def f32_eval)

text \<open>
  C5. \<open>transform M roi\<close> sends the centres of the four corner pixels of \<open>roi\<close> (the
  corners at the offsets 0.5 inside the ROI: \<open>xbegin + 0.5\<close>, \<open>xend - 0.5\<close>,
  \<open>ybegin + 0.5\<close>, \<open>yend - 0.5\<close>) through \<open>M\<close>, takes the bounding box of the four
  images and returns the ROI from \<open>floor min\<close> to \<open>floor max + 1\<close> in x and y, with the z
  and channel ranges of \<open>roi\<close>. The map through \<open>M\<close> is the binary32 computation of
  \<^verbatim>\<open>multVecMatrix\<close>. The projective divide needs a nonzero homogeneous coordinate at the
  four points, which every affine matrix (third column \<open>0, 0, 1\<close>) has, and the
  conversions to \<^verbatim>\<open>int\<close> need images that fit.
\<close>

theorem transform_roi_bbox:
  assumes "\<forall>p \<in> set (corner_centers roi). homog_w32 M p \<noteq> 0"
      and "\<forall>p \<in> set (corner_centers roi).
             int_range (fst (image_pt32 M p)) \<and> int_range (snd (image_pt32 M p))"
  shows "transform M roi =
           Some (mkROI \<lfloor>Min (set (map (fst \<circ> image_pt32 M) (corner_centers roi)))\<rfloor>
                       (\<lfloor>Max (set (map (fst \<circ> image_pt32 M) (corner_centers roi)))\<rfloor> + 1)
                       \<lfloor>Min (set (map (snd \<circ> image_pt32 M) (corner_centers roi)))\<rfloor>
                       (\<lfloor>Max (set (map (snd \<circ> image_pt32 M) (corner_centers roi)))\<rfloor> + 1)
                       (zbegin roi) (zend roi) (chbegin roi) (chend roi))"
  using assms(1) unfolding corner_centers_def transform_def
  by (simp add: multVecMatrix_Some extendBy_min_max Box2f_of_def Let_def fadd_def fsub_def i2f_def
                min.commute min.left_commute max.commute max.left_commute)

theorem transform_roi_bbox_witness:
  "transform M_scale28 R_3x1 = Some (mkROI 1 8 1 2 0 1 0 3)"
proof -
  have h: "\<forall>p \<in> set (corner_centers R_3x1). homog_w32 M_scale28 p \<noteq> 0"
    by (simp add: corners_3x1 scale28_w)
  have r: "\<forall>p \<in> set (corner_centers R_3x1).
             int_range (fst (image_pt32 M_scale28 p)) \<and> int_range (snd (image_pt32 M_scale28 p))"
    by (simp add: corners_3x1 scale28_pt int_range_def)
  show ?thesis
    using transform_roi_bbox [OF h r]
    by (simp add: corners_3x1 scale28_pt) (simp add: R_3x1_def mkROI_def)
qed

subsection \<open>C1: the footprint of the filtered sample\<close>

text \<open>
  The pixels the iteration visits without edge clamping, for any filter: the half-open
  rectangle whose two radii are both computed from \<open>filter->width()\<close>, every operation
  rounded to binary32.
\<close>

lemma sample_pixels_set:
  "set (sample_pixels src s t dsdx dtdx dsdy dtdy filt wrap False) =
     {(x, y, z). z = 0 \<and>
        \<lfloor>rnd32 (s - rnd32 (rnd32 (0.5 * Max {1, \<bar>dsdx\<bar>, \<bar>dsdy\<bar>}) * width filt))\<rfloor> \<le> x \<and>
        x < \<lceil>rnd32 (s + rnd32 (rnd32 (0.5 * Max {1, \<bar>dsdx\<bar>, \<bar>dsdy\<bar>}) * width filt))\<rceil> \<and>
        \<lfloor>rnd32 (t - rnd32 (rnd32 (0.5 * Max {1, \<bar>dtdx\<bar>, \<bar>dtdy\<bar>}) * width filt))\<rfloor> \<le> y \<and>
        y < \<lceil>rnd32 (t + rnd32 (rnd32 (0.5 * Max {1, \<bar>dtdx\<bar>, \<bar>dtdy\<bar>}) * width filt))\<rceil>}"
  by (rule set_eqI)
     (clarsimp simp: sample_pixels_def sample_support_def Let_def set_iter_range
                     fadd_def fsub_def fmul_def, linarith)

lemma ceiling_three_halves: "\<lceil>3 / 2 :: real\<rceil> = 2"
  by (simp add: ceiling_eq_iff)

lemma floor_minus_one: "\<lfloor>- 1 :: real\<rfloor> = - 1"
  by (simp add: floor_eq_iff)

text \<open>
  C1, as amended. With \<open>ds = max(1, |ds/dx|, |ds/dy|)\<close> and
  \<open>dt = max(1, |dt/dx|, |dt/dy|)\<close>, and for a filter whose height equals its width, the
  radii are \<open>rs = 0.5 * ds * width\<close> and \<open>rt = 0.5 * dt * height\<close>, and without edge
  clamping the pixels iterated are those of the half-open rectangle
  \<open>floor (s - rs) \<le> x < ceil (s + rs)\<close>, \<open>floor (t - rt) \<le> y < ceil (t + rt)\<close>, \<open>z = 0\<close>.
  The products, the difference and the sum are binary32 operations, and the four bounds
  are assumed to fit an \<^verbatim>\<open>int\<close>.
\<close>

theorem filtered_sample_support:
  assumes "height filt = width filt"
      and "int_range (rnd32 (s - rnd32 (rnd32 (0.5 * Max {1, \<bar>dsdx\<bar>, \<bar>dsdy\<bar>}) * width filt)))"
      and "int_range (rnd32 (s + rnd32 (rnd32 (0.5 * Max {1, \<bar>dsdx\<bar>, \<bar>dsdy\<bar>}) * width filt)))"
      and "int_range (rnd32 (t - rnd32 (rnd32 (0.5 * Max {1, \<bar>dtdx\<bar>, \<bar>dtdy\<bar>}) * height filt)))"
      and "int_range (rnd32 (t + rnd32 (rnd32 (0.5 * Max {1, \<bar>dtdx\<bar>, \<bar>dtdy\<bar>}) * height filt)))"
  shows "set (sample_pixels src s t dsdx dtdx dsdy dtdy filt wrap False) =
     {(x, y, z). z = 0 \<and>
        \<lfloor>rnd32 (s - rnd32 (rnd32 (0.5 * Max {1, \<bar>dsdx\<bar>, \<bar>dsdy\<bar>}) * width filt))\<rfloor> \<le> x \<and>
        x < \<lceil>rnd32 (s + rnd32 (rnd32 (0.5 * Max {1, \<bar>dsdx\<bar>, \<bar>dsdy\<bar>}) * width filt))\<rceil> \<and>
        \<lfloor>rnd32 (t - rnd32 (rnd32 (0.5 * Max {1, \<bar>dtdx\<bar>, \<bar>dtdy\<bar>}) * height filt))\<rfloor> \<le> y \<and>
        y < \<lceil>rnd32 (t + rnd32 (rnd32 (0.5 * Max {1, \<bar>dtdx\<bar>, \<bar>dtdy\<bar>}) * height filt))\<rceil>}"
  unfolding assms(1) by (rule sample_pixels_set)

text \<open>
  At \<open>s = t = 2^-30\<close> with a box of width 2 the sum \<open>s + 1\<close> rounds to 1 and the
  difference \<open>s - 1\<close> to -1: the columns and rows visited are -1 and 0.
\<close>

lemma tiny_bounds:
  "rnd32 (1 / 1073741824 - rnd32 (rnd32 (0.5 * Max {1, \<bar>0\<bar>, \<bar>0\<bar>}) * 2)) = - 1"
  "rnd32 (1 / 1073741824 + rnd32 (rnd32 (0.5 * Max {1, \<bar>0\<bar>, \<bar>0\<bar>}) * 2)) = 1"
  by (simp_all add: f32_eval)

theorem filtered_sample_support_witness:
  "(0, 0, 0) \<in> set (sample_pixels (mkimage (mkspec 0 0 4 4 1) (\<lambda>x y z c. 1))
                       (1 / 1073741824) (1 / 1073741824) 0 0 0 0 (box_filter 2 2) WrapBlack False) \<and>
   (-1, -1, 0) \<in> set (sample_pixels (mkimage (mkspec 0 0 4 4 1) (\<lambda>x y z c. 1))
                       (1 / 1073741824) (1 / 1073741824) 0 0 0 0 (box_filter 2 2) WrapBlack False) \<and>
   (1, 0, 0) \<notin> set (sample_pixels (mkimage (mkspec 0 0 4 4 1) (\<lambda>x y z c. 1))
                       (1 / 1073741824) (1 / 1073741824) 0 0 0 0 (box_filter 2 2) WrapBlack False)"
proof -
  have w: "width (box_filter 2 2) = 2" "height (box_filter 2 2) = 2"
    by (simp_all add: box_filter_def)
  have h: "height (box_filter 2 2) = width (box_filter 2 2)" by (simp add: w)
  have r: "int_range (rnd32 (1 / 1073741824 - rnd32 (rnd32 (0.5 * Max {1, \<bar>0\<bar>, \<bar>0\<bar>}) * width (box_filter 2 2))))"
          "int_range (rnd32 (1 / 1073741824 + rnd32 (rnd32 (0.5 * Max {1, \<bar>0\<bar>, \<bar>0\<bar>}) * width (box_filter 2 2))))"
          "int_range (rnd32 (1 / 1073741824 - rnd32 (rnd32 (0.5 * Max {1, \<bar>0\<bar>, \<bar>0\<bar>}) * height (box_filter 2 2))))"
          "int_range (rnd32 (1 / 1073741824 + rnd32 (rnd32 (0.5 * Max {1, \<bar>0\<bar>, \<bar>0\<bar>}) * height (box_filter 2 2))))"
    unfolding w tiny_bounds by (simp_all add: int_range_def)
  show ?thesis
    unfolding filtered_sample_support [OF h r] w tiny_bounds
    by (simp add: floor_minus_one)
qed

lemma half_support:
  "sample_support src (1/2) (1/2) 0 0 0 0 (box_filter 2 h) WrapBlack False = (-1, 2, -1, 2, WrapBlack)"
  by (simp add: sample_support_def box_filter_def Let_def) (simp add: f32_eval ceiling_three_halves)

text \<open>
  The claim as worded fails. For a box filter of width 2 and height 2 sampled at
  \<open>(0.5, 0.5)\<close> the worded support holds the column \<open>x = 2 = ceil (s + rs)\<close>, which the
  iteration does not visit. For a box filter of width 2 and height 4 it holds the row
  \<open>y = -2 = floor (t - 0.5 * height)\<close>, which the iteration does not visit either. All
  the numbers involved are binary32 values and no operation on them rounds.
\<close>

theorem filtered_sample_support_counterexample:
  "in_spec_support (box_filter 2 2) (1/2) (1/2) 0 0 0 0 2 0 \<and>
   (2, 0, 0) \<notin> set (sample_pixels (mkimage (mkspec 0 0 4 4 1) (\<lambda>x y z c. 1))
                       (1/2) (1/2) 0 0 0 0 (box_filter 2 2) WrapBlack False) \<and>
   in_spec_support (box_filter 2 4) (1/2) (1/2) 0 0 0 0 0 (-2) \<and>
   (0, -2, 0) \<notin> set (sample_pixels (mkimage (mkspec 0 0 4 4 1) (\<lambda>x y z c. 1))
                       (1/2) (1/2) 0 0 0 0 (box_filter 2 4) WrapBlack False)"
proof -
  have "in_spec_support (box_filter 2 2) (1/2) (1/2) 0 0 0 0 2 0"
       "in_spec_support (box_filter 2 4) (1/2) (1/2) 0 0 0 0 0 (-2)"
    by (simp_all add: in_spec_support_def box_filter_def Let_def ceiling_three_halves)
  then show ?thesis
    by (simp add: sample_pixels_def half_support set_iter_range)
qed

subsection \<open>The warp kernel as a function of the pixel\<close>

lemma length_pixel_at: "length (pixel_at ib wrap p) = nat (ib_nchannels ib)"
  by (cases p) (simp add: pixel_at_def)

lemma length_accum_fold:
  "length (fst st) = nat (ib_nchannels src) \<Longrightarrow>
   length (fst (fold (\<lambda>p. accum (w p) (pixel_at src wrap p)) ps st)) = nat (ib_nchannels src)"
  by (induction ps arbitrary: st) (simp_all add: accum_def length_pixel_at)

lemma length_filtered_sample:
  "length (filtered_sample src s t dsdx dtdx dsdy dtdy filt wrap edgeclamp) = nat (ib_nchannels src)"
  unfolding filtered_sample_def Let_def
  by (simp add: length_accum_fold)

lemma copy_channels_Some:
  "\<forall>c \<in> set cs. 0 \<le> c \<and> nat c < length pel \<Longrightarrow> \<exists>dst'. copy_channels pel p cs dst = Some dst'"
  by (induction cs arbitrary: dst) simp_all

lemma copy_channels_pixels:
  "copy_channels pel p cs dst = Some dst' \<Longrightarrow>
   dst' = dst\<lparr>pixels := (\<lambda>x y z c. if (x, y, z) = p \<and> int c \<in> set cs then pel ! c
                                 else pixels dst x y z c)\<rparr>"
proof (induction cs arbitrary: dst)
  case Nil
  then show ?case by simp
next
  case (Cons c cs)
  from Cons.prems have c: "0 \<le> c" "nat c < length pel"
    and rest: "copy_channels pel p cs (setpixel dst p (nat c) (pel ! nat c)) = Some dst'"
    by (auto split: if_splits)
  have "dst' = (setpixel dst p (nat c) (pel ! nat c))
           \<lparr>pixels := (\<lambda>x y z c'. if (x, y, z) = p \<and> int c' \<in> set cs then pel ! c'
                        else pixels (setpixel dst p (nat c) (pel ! nat c)) x y z c')\<rparr>"
    by (rule Cons.IH [OF rest])
  also have "\<dots> = dst\<lparr>pixels := (\<lambda>x y z c'. if (x, y, z) = p \<and> int c' \<in> set (c # cs) then pel ! c'
                                 else pixels dst x y z c')\<rparr>"
  proof -
    have "(\<lambda>x y z c'. if (x, y, z) = p \<and> int c' \<in> set cs then pel ! c'
                        else pixels (setpixel dst p (nat c) (pel ! nat c)) x y z c') =
          (\<lambda>x y z c'. if (x, y, z) = p \<and> int c' \<in> set (c # cs) then pel ! c'
                                 else pixels dst x y z c')"
      using c by (intro ext) (auto simp: setpixel_def)
    then show ?thesis by (simp add: setpixel_def)
  qed
  finally show ?case .
qed

lemma warp_pixel_step:
  assumes len: "length pel = nc"
      and tail: "drop (nat (ib_nchannels src)) pel = replicate (nc - nat (ib_nchannels src)) 0"
      and step: "warp_pixel src Minv filt wrap ec roi p (dst, pel) = Some (dst1, pel1)"
  shows "pel1 = warp_value src Minv filt wrap ec nc p"
    and "dst1 = dst\<lparr>pixels := (\<lambda>x y z c.
                   if (x, y, z) = p \<and> chbegin roi \<le> int c \<and> int c < chend roi
                   then warp_value src Minv filt wrap ec nc p ! c else pixels dst x y z c)\<rparr>"
proof -
  define res where "res = filtered_sample src (val (fst (warp_point Minv p))) (val (snd (warp_point Minv p)))
     (dx (fst (warp_point Minv p))) (dx (snd (warp_point Minv p)))
     (dy (fst (warp_point Minv p))) (dy (snd (warp_point Minv p))) filt wrap ec"
  have lres: "length res = nat (ib_nchannels src)"
    by (simp add: res_def length_filtered_sample)
  have wv: "warp_value src Minv filt wrap ec nc p = res @ replicate (nc - length res) 0"
    by (simp add: warp_value_def res_def Let_def)
  from step have st: "store_result res pel = Some pel1"
    and cp: "copy_channels pel1 p [chbegin roi..chend roi - 1] dst = Some dst1"
    by (auto simp: warp_pixel_def warp_point_def res_def Let_def split: option.splits)
  from st have "pel1 = res @ drop (length res) pel"
    by (simp add: store_result_def split: if_splits)
  with tail lres wv show p1: "pel1 = warp_value src Minv filt wrap ec nc p" by simp
  have "(\<lambda>x y z c. if (x, y, z) = p \<and> int c \<in> set [chbegin roi..chend roi - 1] then pel1 ! c
                       else pixels dst x y z c) =
        (\<lambda>x y z c. if (x, y, z) = p \<and> chbegin roi \<le> int c \<and> int c < chend roi
                   then warp_value src Minv filt wrap ec nc p ! c else pixels dst x y z c)"
    by (intro ext) (auto simp: p1)
  with copy_channels_pixels [OF cp] show "dst1 = dst\<lparr>pixels := (\<lambda>x y z c.
                   if (x, y, z) = p \<and> chbegin roi \<le> int c \<and> int c < chend roi
                   then warp_value src Minv filt wrap ec nc p ! c else pixels dst x y z c)\<rparr>"
    by simp
qed

lemma warp_value_shape:
  "nat (ib_nchannels src) \<le> nc \<Longrightarrow>
   length (warp_value src Minv filt wrap ec nc p) = nc \<and>
   drop (nat (ib_nchannels src)) (warp_value src Minv filt wrap ec nc p) =
     replicate (nc - nat (ib_nchannels src)) 0"
  by (simp add: warp_value_def Let_def length_filtered_sample)

lemma warp_loop_result:
  assumes "length pel = nc"
      and "drop (nat (ib_nchannels src)) pel = replicate (nc - nat (ib_nchannels src)) 0"
      and "nat (ib_nchannels src) \<le> nc"
      and "foldM (warp_pixel src Minv filt wrap ec roi) ps (dst, pel) = Some (dst', pel')"
  shows "dst' = dst\<lparr>pixels := (\<lambda>x y z c.
                   if (x, y, z) \<in> set ps \<and> chbegin roi \<le> int c \<and> int c < chend roi
                   then warp_value src Minv filt wrap ec nc (x, y, z) ! c else pixels dst x y z c)\<rparr>"
  using assms
proof (induction ps arbitrary: dst pel)
  case Nil
  then show ?case by simp
next
  case (Cons p ps)
  from Cons.prems(4) obtain dst1 pel1
    where step: "warp_pixel src Minv filt wrap ec roi p (dst, pel) = Some (dst1, pel1)"
      and rest: "foldM (warp_pixel src Minv filt wrap ec roi) ps (dst1, pel1) = Some (dst', pel')"
    by (auto split: option.splits)
  note s = warp_pixel_step [OF Cons.prems(1) Cons.prems(2) step]
  have shape: "length pel1 = nc"
     "drop (nat (ib_nchannels src)) pel1 = replicate (nc - nat (ib_nchannels src)) 0"
    using warp_value_shape [OF Cons.prems(3)] s(1) by simp_all
  have "dst' = dst1\<lparr>pixels := (\<lambda>x y z c.
                   if (x, y, z) \<in> set ps \<and> chbegin roi \<le> int c \<and> int c < chend roi
                   then warp_value src Minv filt wrap ec nc (x, y, z) ! c else pixels dst1 x y z c)\<rparr>"
    by (rule Cons.IH [OF shape Cons.prems(3) rest])
  moreover have "(\<lambda>x y z c.
                   if (x, y, z) \<in> set ps \<and> chbegin roi \<le> int c \<and> int c < chend roi
                   then warp_value src Minv filt wrap ec nc (x, y, z) ! c else pixels dst1 x y z c) =
       (\<lambda>x y z c.
                   if (x, y, z) \<in> set (p # ps) \<and> chbegin roi \<le> int c \<and> int c < chend roi
                   then warp_value src Minv filt wrap ec nc (x, y, z) ! c else pixels dst x y z c)"
    by (intro ext) (auto simp: s(2))
  ultimately show ?case by (simp add: s(2))
qed

lemma warp_loop_total:
  assumes "length pel = nc"
      and "nat (ib_nchannels src) \<le> nc"
      and "0 \<le> chbegin roi" and "chend roi \<le> int nc"
  shows "\<exists>st. foldM (warp_pixel src Minv filt wrap ec roi) ps (dst, pel) = Some st"
  using assms(1)
proof (induction ps arbitrary: dst pel)
  case Nil
  then show ?case by simp
next
  case (Cons p ps)
  define res where "res = filtered_sample src (val (fst (warp_point Minv p))) (val (snd (warp_point Minv p)))
     (dx (fst (warp_point Minv p))) (dx (snd (warp_point Minv p)))
     (dy (fst (warp_point Minv p))) (dy (snd (warp_point Minv p))) filt wrap ec"
  have lres: "length res = nat (ib_nchannels src)"
    by (simp add: res_def length_filtered_sample)
  define pel1 where "pel1 = res @ drop (length res) pel"
  have st: "store_result res pel = Some pel1"
    using lres assms(2) Cons.prems by (simp add: store_result_def pel1_def)
  have l1: "length pel1 = nc"
    using lres assms(2) Cons.prems by (simp add: pel1_def)
  have "\<forall>c \<in> set [chbegin roi..chend roi - 1]. 0 \<le> c \<and> nat c < length pel1"
    using assms(3,4) l1 by auto
  from copy_channels_Some [OF this] obtain dst1
    where cp: "copy_channels pel1 p [chbegin roi..chend roi - 1] dst = Some dst1" by blast
  have "warp_pixel src Minv filt wrap ec roi p (dst, pel) = Some (dst1, pel1)"
    using st cp by (simp add: warp_pixel_def warp_point_def res_def Let_def)
  with Cons.IH [OF l1] show ?case by simp
qed

lemma foldM_Cons_None: "f p st = None \<Longrightarrow> foldM f (p # ps) st = None"
  by simp

lemma warp_kernel_result:
  assumes "warp_kernel dst src M filt wrap ec roi = Some (dst', ok)"
  shows "ok"
    and "dst' = dst\<lparr>pixels := (\<lambda>x y z c.
                   if (x, y, z) \<in> set (roi_pixels roi) \<and> chbegin roi \<le> int c \<and> int c < chend roi
                   then warp_value src (M33f_inverse M) filt wrap ec (nat (ib_nchannels dst)) (x, y, z) ! c
                   else pixels dst x y z c)\<rparr>"
proof -
  from assms show "ok" by (auto simp: warp_kernel_def Let_def split: option.splits)
  from assms obtain pel' where
    f: "foldM (warp_pixel src (M33f_inverse M) filt wrap ec roi) (roi_pixels roi)
          (dst, replicate (nat (ib_nchannels dst)) 0) = Some (dst', pel')"
    by (auto simp: warp_kernel_def Let_def split: option.splits)
  show "dst' = dst\<lparr>pixels := (\<lambda>x y z c.
                   if (x, y, z) \<in> set (roi_pixels roi) \<and> chbegin roi \<le> int c \<and> int c < chend roi
                   then warp_value src (M33f_inverse M) filt wrap ec (nat (ib_nchannels dst)) (x, y, z) ! c
                   else pixels dst x y z c)\<rparr>"
  proof (cases "nat (ib_nchannels src) \<le> nat (ib_nchannels dst)")
    case True
    show ?thesis
      by (rule warp_loop_result [OF _ _ True f]) simp_all
  next
    case False
    have "roi_pixels roi = []"
    proof (cases "roi_pixels roi")
      case Nil then show ?thesis .
    next
      case (Cons p ps)
      have "warp_pixel src (M33f_inverse M) filt wrap ec roi p
              (dst, replicate (nat (ib_nchannels dst)) 0) = None"
        using False by (simp add: warp_pixel_def Let_def store_result_def length_filtered_sample)
      with f Cons show ?thesis by simp
    qed
    with f show ?thesis by simp
  qed
qed

lemma warp_kernel_total:
  assumes "ib_nchannels src \<le> ib_nchannels dst"
      and "0 \<le> chbegin roi" and "chend roi \<le> ib_nchannels dst"
  shows "\<exists>dst'. warp_kernel dst src M filt wrap ec roi = Some (dst', True)"
proof -
  have "\<exists>st. foldM (warp_pixel src (M33f_inverse M) filt wrap ec roi) (roi_pixels roi)
          (dst, replicate (nat (ib_nchannels dst)) 0) = Some st"
    by (rule warp_loop_total [where nc = "nat (ib_nchannels dst)"]) (use assms in auto)
  then show ?thesis by (auto simp: warp_kernel_def Let_def)
qed

lemma in_roi_pixels: "(x, y, z) \<in> set (roi_pixels roi) \<longleftrightarrow> in_roi roi x y z"
  by (simp add: roi_pixels_def set_iter_range in_roi_def)

subsection \<open>C10: the warp kernel writes the ROI's channels only\<close>

text \<open>
  C10. A run of the warp kernel changes a destination value only at a pixel inside the
  ROI and a channel \<open>c\<close> with \<open>chbegin \<le> c < chend\<close>, where it stores the sample's channel;
  every other channel and pixel, and every other field of the buffer, is as before.
\<close>

theorem warp_kernel_frame:
  assumes "warp_kernel dst src M filt wrap ec roi = Some (dst', ok)"
  shows "(\<forall>x y z c. (in_roi roi x y z \<and> chbegin roi \<le> int c \<and> int c < chend roi) \<or>
                    pixels dst' x y z c = pixels dst x y z c) \<and>
         (\<forall>x y z c. pixels dst' x y z c =
            (if in_roi roi x y z \<and> chbegin roi \<le> int c \<and> int c < chend roi
             then warp_value src (M33f_inverse M) filt wrap ec (nat (ib_nchannels dst)) (x, y, z) ! c
             else pixels dst x y z c)) \<and>
         dst'\<lparr>pixels := pixels dst\<rparr> = dst"
  using warp_kernel_result(2) [OF assms]
  by (auto simp: in_roi_pixels)

theorem warp_kernel_frame_witness:
  "warp_kernel dst_fives src_ones M33f_identity (box_filter 1 1) WrapBlack False R_pixel0 \<noteq> None \<and>
   pixels (fst (the (warp_kernel dst_fives src_ones M33f_identity (box_filter 1 1) WrapBlack False
                       R_pixel0))) 1 0 0 0 = 5 \<and>
   pixels (fst (the (warp_kernel dst_fives src_ones M33f_identity (box_filter 1 1) WrapBlack False
                       R_pixel0))) 0 0 0 1 = 5"
proof -
  obtain dst' where k: "warp_kernel dst_fives src_ones M33f_identity (box_filter 1 1) WrapBlack False
                          R_pixel0 = Some (dst', True)"
    using warp_kernel_total [of src_ones dst_fives R_pixel0 M33f_identity "box_filter 1 1" WrapBlack False]
    by (auto simp: src_ones_def dst_fives_def R_pixel0_def mkimage_def mkspec_def mkROI_def
                   ib_nchannels_def)
  from warp_kernel_frame [OF k]
  have "pixels dst' 1 0 0 0 = 5" "pixels dst' 0 0 0 1 = 5"
    by (auto simp: in_roi_def R_pixel0_def mkROI_def dst_fives_def mkimage_def)
  with k show ?thesis by simp
qed



subsection \<open>C3: a destination pixel whose homogeneous coordinate is zero\<close>













subsection \<open>C4: edge clamping\<close>

text \<open>
  C4. With the edge-clamp flag the four bounds of the support are clamped to the data
  window of the source before the iterator is built, so the pixels visited are those of
  the unclamped support that lie in the data window (in x and y); the wrap mode handed to
  the iterator is the caller's. Without the flag the bounds are the unclamped ones, the
  floor and ceiling of the binary32 difference and sum of the sample coordinate and the
  radius.
\<close>

theorem edgeclamp_support:
  assumes "ib_xbegin src \<le> ib_xend src" and "ib_ybegin src \<le> ib_yend src"
  shows "sample_support src s t dsdx dtdx dsdy dtdy filt wrap True =
           (case sample_support src s t dsdx dtdx dsdy dtdy filt wrap False of
              (smin, smax, tmin, tmax, w) \<Rightarrow>
                (clamp smin (ib_xbegin src) (ib_xend src), clamp smax (ib_xbegin src) (ib_xend src),
                 clamp tmin (ib_ybegin src) (ib_yend src), clamp tmax (ib_ybegin src) (ib_yend src),
                 wrap)) \<and>
         set (sample_pixels src s t dsdx dtdx dsdy dtdy filt wrap True) =
           {p \<in> set (sample_pixels src s t dsdx dtdx dsdy dtdy filt wrap False).
              ib_xbegin src \<le> fst p \<and> fst p < ib_xend src \<and>
              ib_ybegin src \<le> fst (snd p) \<and> fst (snd p) < ib_yend src} \<and>
         sample_support src s t dsdx dtdx dsdy dtdy filt wrap False =
           (\<lfloor>rnd32 (s - rnd32 (rnd32 (0.5 * max 1 (max \<bar>dsdx\<bar> \<bar>dsdy\<bar>)) * width filt))\<rfloor>,
            \<lceil>rnd32 (s + rnd32 (rnd32 (0.5 * max 1 (max \<bar>dsdx\<bar> \<bar>dsdy\<bar>)) * width filt))\<rceil>,
            \<lfloor>rnd32 (t - rnd32 (rnd32 (0.5 * max 1 (max \<bar>dtdx\<bar> \<bar>dtdy\<bar>)) * width filt))\<rfloor>,
            \<lceil>rnd32 (t + rnd32 (rnd32 (0.5 * max 1 (max \<bar>dtdx\<bar> \<bar>dtdy\<bar>)) * width filt))\<rceil>, wrap)"
proof (intro conjI)
  show "sample_support src s t dsdx dtdx dsdy dtdy filt wrap True =
           (case sample_support src s t dsdx dtdx dsdy dtdy filt wrap False of
              (smin, smax, tmin, tmax, w) \<Rightarrow>
                (clamp smin (ib_xbegin src) (ib_xend src), clamp smax (ib_xbegin src) (ib_xend src),
                 clamp tmin (ib_ybegin src) (ib_yend src), clamp tmax (ib_ybegin src) (ib_yend src),
                 wrap))"
    by (simp add: sample_support_def Let_def)
  show "sample_support src s t dsdx dtdx dsdy dtdy filt wrap False =
           (\<lfloor>rnd32 (s - rnd32 (rnd32 (0.5 * max 1 (max \<bar>dsdx\<bar> \<bar>dsdy\<bar>)) * width filt))\<rfloor>,
            \<lceil>rnd32 (s + rnd32 (rnd32 (0.5 * max 1 (max \<bar>dsdx\<bar> \<bar>dsdy\<bar>)) * width filt))\<rceil>,
            \<lfloor>rnd32 (t - rnd32 (rnd32 (0.5 * max 1 (max \<bar>dtdx\<bar> \<bar>dtdy\<bar>)) * width filt))\<rfloor>,
            \<lceil>rnd32 (t + rnd32 (rnd32 (0.5 * max 1 (max \<bar>dtdx\<bar> \<bar>dtdy\<bar>)) * width filt))\<rceil>, wrap)"
    by (simp add: sample_support_def Let_def fadd_def fsub_def fmul_def)
  have cl: "clamp a lo hi \<le> x \<and> x < clamp b lo hi \<longleftrightarrow> a \<le> x \<and> x < b \<and> lo \<le> x \<and> x < hi"
    if "lo \<le> hi" for a b lo hi x :: int
    using that by (auto simp: clamp_def Let_def)
  show "set (sample_pixels src s t dsdx dtdx dsdy dtdy filt wrap True) =
           {p \<in> set (sample_pixels src s t dsdx dtdx dsdy dtdy filt wrap False).
              ib_xbegin src \<le> fst p \<and> fst p < ib_xend src \<and>
              ib_ybegin src \<le> fst (snd p) \<and> fst (snd p) < ib_yend src}"
  proof (rule set_eqI)
    fix p :: "int \<times> int \<times> int"
    obtain x y z where p: "p = (x, y, z)" by (cases p) auto
    define smin where "smin = \<lfloor>fsub s (fmul (fmul 0.5 (max 1 (max \<bar>dsdx\<bar> \<bar>dsdy\<bar>))) (width filt))\<rfloor>"
    define smax where "smax = \<lceil>fadd s (fmul (fmul 0.5 (max 1 (max \<bar>dsdx\<bar> \<bar>dsdy\<bar>))) (width filt))\<rceil>"
    define tmin where "tmin = \<lfloor>fsub t (fmul (fmul 0.5 (max 1 (max \<bar>dtdx\<bar> \<bar>dtdy\<bar>))) (width filt))\<rfloor>"
    define tmax where "tmax = \<lceil>fadd t (fmul (fmul 0.5 (max 1 (max \<bar>dtdx\<bar> \<bar>dtdy\<bar>))) (width filt))\<rceil>"
    have F: "sample_pixels src s t dsdx dtdx dsdy dtdy filt wrap False =
               iter_range smin smax tmin tmax 0 1"
      by (simp add: sample_pixels_def sample_support_def Let_def smin_def smax_def tmin_def tmax_def)
    have T: "sample_pixels src s t dsdx dtdx dsdy dtdy filt wrap True =
               iter_range (clamp smin (ib_xbegin src) (ib_xend src))
                          (clamp smax (ib_xbegin src) (ib_xend src))
                          (clamp tmin (ib_ybegin src) (ib_yend src))
                          (clamp tmax (ib_ybegin src) (ib_yend src)) 0 1"
      by (simp add: sample_pixels_def sample_support_def Let_def smin_def smax_def tmin_def tmax_def)
    have "p \<in> set (sample_pixels src s t dsdx dtdx dsdy dtdy filt wrap True) \<longleftrightarrow>
            (clamp smin (ib_xbegin src) (ib_xend src) \<le> x \<and> x < clamp smax (ib_xbegin src) (ib_xend src)) \<and>
            (clamp tmin (ib_ybegin src) (ib_yend src) \<le> y \<and> y < clamp tmax (ib_ybegin src) (ib_yend src)) \<and>
            0 \<le> z \<and> z < 1"
      unfolding T p set_iter_range by simp
    also have "\<dots> \<longleftrightarrow> (smin \<le> x \<and> x < smax \<and> ib_xbegin src \<le> x \<and> x < ib_xend src) \<and>
            (tmin \<le> y \<and> y < tmax \<and> ib_ybegin src \<le> y \<and> y < ib_yend src) \<and> 0 \<le> z \<and> z < 1"
      unfolding cl [OF assms(1)] cl [OF assms(2)] ..
    also have "\<dots> \<longleftrightarrow> p \<in> {p \<in> set (sample_pixels src s t dsdx dtdx dsdy dtdy filt wrap False).
              ib_xbegin src \<le> fst p \<and> fst p < ib_xend src \<and>
              ib_ybegin src \<le> fst (snd p) \<and> fst (snd p) < ib_yend src}"
      unfolding F p set_iter_range by auto
    finally show "p \<in> set (sample_pixels src s t dsdx dtdx dsdy dtdy filt wrap True) \<longleftrightarrow>
       p \<in> {p \<in> set (sample_pixels src s t dsdx dtdx dsdy dtdy filt wrap False).
              ib_xbegin src \<le> fst p \<and> fst p < ib_xend src \<and>
              ib_ybegin src \<le> fst (snd p) \<and> fst (snd p) < ib_yend src}" .
  qed
qed

lemma wide_support:
  "sample_support src 0 0 0 0 0 0 (box_filter 8 8) wrap False = (-4, 4, -4, 4, wrap)"
  by (simp add: sample_support_def box_filter_def Let_def) (simp add: f32_eval)

theorem edgeclamp_support_witness:
  "sample_support src_ones 0 0 0 0 0 0 (box_filter 8 8) WrapBlack True = (-2, 2, -2, 2, WrapBlack) \<and>
   (1, 1, 0) \<in> set (sample_pixels src_ones 0 0 0 0 0 0 (box_filter 8 8) WrapBlack True) \<and>
   (2, 1, 0) \<notin> set (sample_pixels src_ones 0 0 0 0 0 0 (box_filter 8 8) WrapBlack True)"
proof -
  have w: "ib_xbegin src_ones \<le> ib_xend src_ones" "ib_ybegin src_ones \<le> ib_yend src_ones"
    by (simp_all add: src_ones_def mkimage_def mkspec_def ib_xbegin_def ib_xend_def
                      ib_ybegin_def ib_yend_def)
  have b: "ib_xbegin src_ones = -2" "ib_xend src_ones = 2" "ib_ybegin src_ones = -2"
          "ib_yend src_ones = 2" "width (box_filter 8 8) = 8"
    by (simp_all add: src_ones_def mkimage_def mkspec_def ib_xbegin_def ib_xend_def
                      ib_ybegin_def ib_yend_def box_filter_def)
  note f = wide_support [of src_ones WrapBlack]
  have m: "set (sample_pixels src_ones 0 0 0 0 0 0 (box_filter 8 8) WrapBlack False) =
             {(x, y, z). -4 \<le> x \<and> x < 4 \<and> -4 \<le> y \<and> y < 4 \<and> 0 \<le> z \<and> z < 1}"
    by (simp add: sample_pixels_def f set_iter_range)
  from edgeclamp_support [OF w, of 0 0 0 0 0 0 "box_filter 8 8" WrapBlack]
  have "sample_support src_ones 0 0 0 0 0 0 (box_filter 8 8) WrapBlack True =
           (case sample_support src_ones 0 0 0 0 0 0 (box_filter 8 8) WrapBlack False of
              (smin, smax, tmin, tmax, w) \<Rightarrow>
                (clamp smin (ib_xbegin src_ones) (ib_xend src_ones),
                 clamp smax (ib_xbegin src_ones) (ib_xend src_ones),
                 clamp tmin (ib_ybegin src_ones) (ib_yend src_ones),
                 clamp tmax (ib_ybegin src_ones) (ib_yend src_ones), WrapBlack))"
    and "set (sample_pixels src_ones 0 0 0 0 0 0 (box_filter 8 8) WrapBlack True) =
           {p \<in> set (sample_pixels src_ones 0 0 0 0 0 0 (box_filter 8 8) WrapBlack False).
              ib_xbegin src_ones \<le> fst p \<and> fst p < ib_xend src_ones \<and>
              ib_ybegin src_ones \<le> fst (snd p) \<and> fst (snd p) < ib_yend src_ones}"
    by blast+
  then show ?thesis
    by (simp add: f m b clamp_def)
qed

subsection \<open>C6: the choice of the resize filter\<close>




subsection \<open>C9: rotate as a warp\<close>

lemma rotate_matrix_eq:
  "M33f_mul (M33f_rotate (M33f_translate M33f_identity (- cx, - cy)) angle)
            (M33f_translate M33f_identity (cx, cy)) = rotation_about angle cx cy"
  by (simp add: M33f_identity_def M33f_rotate_def M33f_setRotation_def rotation_about_def
                T_matrix_def)

lemma rotation_about_point:
  "homog_w (rotation_about angle cx cy) p = 1"
  "image_pt (rotation_about angle cx cy) p =
     (cx + (cos angle * (fst p - cx) - sin angle * (snd p - cy)),
      cy + (sin angle * (fst p - cx) + cos angle * (snd p - cy)))"
  by (simp_all add: rotation_about_def T_matrix_def M33f_setRotation_def image_pt_def homog_w_def
                    algebra_simps)

text \<open>
  C9, as amended. \<open>rotate\<close> without a centre is \<open>warp\<close> with wrap mode Black and the
  matrix that translates by \<open>-c\<close>, rotates by the angle and translates by \<open>c\<close> (as a map of
  points, \<open>p \<mapsto> c + R (p - c)\<close>), where \<open>c\<close> is the centre of the source's full window,
  \<open>(0.5 * (xbegin + xend), 0.5 * (ybegin + yend))\<close>.
\<close>

theorem rotate_is_warp:
  "rotate ext dst src angle filt recompute_roi roi =
     warp ext dst src
       (rotation_about angle
          (0.5 * real_of_int (xbegin (ib_roi_full src) + xend (ib_roi_full src)))
          (0.5 * real_of_int (ybegin (ib_roi_full src) + yend (ib_roi_full src))))
       filt recompute_roi WrapBlack roi \<and>
   image_pt (rotation_about angle cx cy) (px, py) =
     (cx + (cos angle * (px - cx) - sin angle * (py - cy)),
      cy + (sin angle * (px - cx) + cos angle * (py - cy)))"
  by (simp add: rotate_def rotate_about_def Let_def rotate_matrix_eq rotation_about_point)

lemma warp_plain:
  "initialized dst \<Longrightarrow>
   warp ext_plain dst src M (Some f) rr wrap (Some r) =
     warp_kernel dst src M f wrap False (r\<lparr>chend := min (chend r) (ib_nchannels src)\<rparr>)"
  by (simp add: warp_def warp_impl_def ext_plain_def Let_def)

lemma rot_pi_inverse:
  "M33f_inverse (rotation_about pi cx cy) = rotation_about pi cx cy"
  by (simp add: rotation_about_def T_matrix_def M33f_setRotation_def Let_def)

lemma rot_pi_point:
  "warp_point (rotation_about pi cx cy) (x, y, z) =
     (\<lparr>val = 2 * cx - (real_of_int x + 0.5), dx = -1, dy = 0\<rparr>,
      \<lparr>val = 2 * cy - (real_of_int y + 0.5), dx = 0, dy = -1\<rparr>)"
  by (simp add: warp_point_def robust_multVecMatrix_def robust_w_def rotation_about_def
                T_matrix_def M33f_setRotation_def Let_def dual_div_def dual_add_def
                dual_addf_def dual_mulf_def)

lemma corner_facts:
  "ib_nchannels src_corner = 1" "ib_nchannels dst_zeros = 1" "initialized dst_zeros"
  "ib_roi_full src_corner = mkROI 0 2 0 2 0 1 0 1"
  by (simp_all add: src_corner_def dst_zeros_def mkimage_def mkspec_def ib_nchannels_def
                    ib_roi_full_def ib_zbegin_def ib_zend_def)

lemma pixel_at_corner:
  "pixel_at src_corner WrapBlack (1, 1, 0) = [1]"
  "pixel_at src_corner WrapBlack (1, -1, 0) = [0]"
  by (simp_all add: pixel_at_def iter_read_def in_window_def src_corner_def mkimage_def mkspec_def
                ib_nchannels_def ib_xbegin_def
                ib_xend_def ib_ybegin_def ib_yend_def ib_zbegin_def ib_zend_def)

lemma corner_support:
  "sample_support src (3/2) (3/2) (-1) 0 0 (-1) (box_filter 1 1) wrap False = (1, 2, 1, 2, wrap)"
  "sample_support src (3/2) (- (1/2)) (-1) 0 0 (-1) (box_filter 1 1) wrap False = (1, 2, -1, 0, wrap)"
  by (simp_all add: sample_support_def box_filter_def Let_def)
     (simp_all add: f32_eval floor_minus_one)

lemma corner_weights:
  "feval (box_filter 1 1) (fmul (fdiv 1 1) (fsub (fadd (i2f 1) (1/2)) (3/2)))
                          (fmul (fdiv 1 1) (fsub (fadd (i2f 1) (1/2)) (3/2))) = 1"
  "feval (box_filter 1 1) (fmul (fdiv 1 1) (fsub (fadd (i2f 1) (1/2)) (3/2)))
                          (fmul (fdiv 1 1) (fsub (fadd (i2f (-1)) (1/2)) (- (1/2)))) = 1"
  by (simp_all add: box_filter_def f32_eval)

lemma sample_corner_code:
  "filtered_sample src_corner (3/2) (3/2) (-1) 0 0 (-1) (box_filter 1 1) WrapBlack False = [1]"
proof -
  have px: "sample_pixels src_corner (3/2) (3/2) (-1) 0 0 (-1) (box_filter 1 1) WrapBlack False =
          [(1, 1, 0)]"
    by (simp add: sample_pixels_def corner_support iter_range_def)
  show ?thesis
    unfolding filtered_sample_def px Let_def corner_support
    by (simp add: pixel_at_corner accum_def corner_facts corner_weights) (simp add: f32_eval)
qed

lemma sample_corner_spec:
  "filtered_sample src_corner (3/2) (- (1/2)) (-1) 0 0 (-1) (box_filter 1 1) WrapBlack False = [0]"
proof -
  have px: "sample_pixels src_corner (3/2) (- (1/2)) (-1) 0 0 (-1) (box_filter 1 1) WrapBlack False =
          [(1, -1, 0)]"
    by (simp add: sample_pixels_def corner_support iter_range_def)
  show ?thesis
    unfolding filtered_sample_def px Let_def corner_support
    by (simp add: pixel_at_corner accum_def corner_facts corner_weights) (simp add: f32_eval)
qed


lemma warp_corner_pixel:
  assumes "warp_kernel dst_zeros src_corner (rotation_about pi cx cy) (box_filter 1 1) WrapBlack False
             (R_pixel0\<lparr>chend := min (chend R_pixel0) (ib_nchannels src_corner)\<rparr>) = Some (dst', ok)"
  shows "pixels dst' 0 0 0 0 =
           filtered_sample src_corner (2 * cx - 1/2) (2 * cy - 1/2) (-1) 0 0 (-1)
             (box_filter 1 1) WrapBlack False ! 0"
proof -
  have "pixels dst' 0 0 0 0 =
          warp_value src_corner (M33f_inverse (rotation_about pi cx cy)) (box_filter 1 1) WrapBlack
            False (nat (ib_nchannels dst_zeros)) (0, 0, 0) ! 0"
    by (subst warp_kernel_result(2) [OF assms])
       (simp add: in_roi_pixels in_roi_def R_pixel0_def mkROI_def corner_facts)
  also have "\<dots> = filtered_sample src_corner (2 * cx - 1/2) (2 * cy - 1/2) (-1) 0 0 (-1)
             (box_filter 1 1) WrapBlack False ! 0"
    by (simp add: warp_value_def rot_pi_inverse rot_pi_point Let_def nth_append
                  length_filtered_sample corner_facts)
  finally show ?thesis .
qed

text \<open>
  With the centre as the claim words it, \<open>0.5 * (ybegin + ybegin)\<close> in y, the statement
  fails: rotating the 2 x 2 source by \<open>pi\<close> brings its pixel \<open>(1, 1)\<close> to the destination
  pixel \<open>(0, 0)\<close>, while the warp about \<open>(1, 0)\<close> reads outside the source there.
\<close>

theorem rotate_is_warp_counterexample:
  "rotate ext_plain dst_zeros src_corner pi (Some (box_filter 1 1)) False (Some R_pixel0) \<noteq>
   warp ext_plain dst_zeros src_corner
     (rotation_about pi (fst (spec_center src_corner)) (snd (spec_center src_corner)))
     (Some (box_filter 1 1)) False WrapBlack (Some R_pixel0)"
proof
  assume eq: "rotate ext_plain dst_zeros src_corner pi (Some (box_filter 1 1)) False (Some R_pixel0) =
   warp ext_plain dst_zeros src_corner
     (rotation_about pi (fst (spec_center src_corner)) (snd (spec_center src_corner)))
     (Some (box_filter 1 1)) False WrapBlack (Some R_pixel0)"
  let ?R = "R_pixel0\<lparr>chend := min (chend R_pixel0) (ib_nchannels src_corner)\<rparr>"
  have wf: "ib_nchannels src_corner \<le> ib_nchannels dst_zeros" "0 \<le> chbegin ?R"
           "chend ?R \<le> ib_nchannels dst_zeros"
    by (simp_all add: corner_facts R_pixel0_def mkROI_def)
  have code: "rotate ext_plain dst_zeros src_corner pi (Some (box_filter 1 1)) False (Some R_pixel0) =
          warp_kernel dst_zeros src_corner (rotation_about pi 1 1) (box_filter 1 1) WrapBlack False ?R"
    by (simp add: rotate_def rotate_about_def Let_def rotate_matrix_eq warp_plain corner_facts
                  mkROI_def)
  have spec: "warp ext_plain dst_zeros src_corner
     (rotation_about pi (fst (spec_center src_corner)) (snd (spec_center src_corner)))
     (Some (box_filter 1 1)) False WrapBlack (Some R_pixel0) =
          warp_kernel dst_zeros src_corner (rotation_about pi 1 0) (box_filter 1 1) WrapBlack False ?R"
    by (simp add: warp_plain corner_facts spec_center_def mkROI_def)
  from warp_kernel_total [OF wf, of "rotation_about pi 1 1" "box_filter 1 1" WrapBlack False]
  obtain d1 where k1: "warp_kernel dst_zeros src_corner (rotation_about pi 1 1) (box_filter 1 1)
                         WrapBlack False ?R = Some (d1, True)" by blast
  with eq code spec
  have k2: "warp_kernel dst_zeros src_corner (rotation_about pi 1 0) (box_filter 1 1)
                         WrapBlack False ?R = Some (d1, True)" by simp
  have "pixels d1 0 0 0 0 = 1"
    using warp_corner_pixel [OF k1] by (simp add: sample_corner_code)
  moreover have "pixels d1 0 0 0 0 = 0"
    using warp_corner_pixel [OF k2] by (simp add: sample_corner_spec)
  ultimately show False by simp
qed

subsection \<open>C7: sample counts of a deep resample\<close>












subsection \<open>C8: the separable resize as a convex combination\<close>

lemma length_add_weighted: "length px = length pel \<Longrightarrow> length (add_weighted w px pel) = length pel"
  by (simp add: add_weighted_def)

lemma nth_add_weighted:
  "length px = length pel \<Longrightarrow> c < length pel \<Longrightarrow>
   add_weighted w px pel ! c = pel ! c + w * px ! c"
  by (simp add: add_weighted_def)































subsection \<open>C2: the support of the general resize path\<close>

lemma gen_taps_run:
  assumes "it_range it = (xb, xe, yb, ye, zb, ze)"
      and "it_pos it = (sx + a, y, z)" and "\<not> it_finished it"
      and "xe = sx + radi + 1" and "a \<le> radi"
      and "int nch \<le> ib_nchannels src" and "length pel = nch"
  shows "\<exists>pel'. foldM (gen_tap src filt nch xr yr fx fy j) [a..radi] (it, pel, tw) =
                  Some (next_row (xb, xe, yb, ye, zb, ze) y z, pel',
                        tw + sum_list (map (\<lambda>i. feval filt (xr * (real_of_int i - (fx - 0.5)))
                                                            (yr * (real_of_int j - (fy - 0.5))))
                                           [a..radi])) \<and>
               length pel' = nch \<and>
               (\<forall>c < nch. pel' ! c = pel ! c +
                  sum_list (map (\<lambda>i. feval filt (xr * (real_of_int i - (fx - 0.5)))
                                                  (yr * (real_of_int j - (fy - 0.5))) *
                                      iter_read src WrapClamp (sx + i) y z c) [a..radi]))"
  using assms(1,2,3,4,5,7)
proof (induction a radi arbitrary: it pel tw rule: upto.induct)
  case (1 a radi)
  note rng = "1.prems"(1) and pos = "1.prems"(2) and nf = "1.prems"(3) and xe = "1.prems"(4)
    and le = "1.prems"(5) and len = "1.prems"(6)
  define w where "w = feval filt (xr * (real_of_int a - (fx - 0.5))) (yr * (real_of_int j - (fy - 0.5)))"
  define px where "px = map (iter_read src WrapClamp (sx + a) y z) [0..<nch]"
  define pel1 where "pel1 = (if w \<noteq> 0 then add_weighted w px pel else pel)"
  have get: "iter_get src WrapClamp it nch = Some px"
    using nf pos assms(6) by (simp add: iter_get_def px_def)
  have step: "gen_tap src filt nch xr yr fx fy j a (it, pel, tw) = Some (iter_incr it, pel1, tw + w)"
    by (simp add: gen_tap_def Let_def get pel1_def w_def)
  have l1: "length pel1 = nch"
    using len by (simp add: pel1_def px_def length_add_weighted)
  have v1: "pel1 ! c = pel ! c + w * iter_read src WrapClamp (sx + a) y z c" if "c < nch" for c
    using that len by (simp add: pel1_def px_def nth_add_weighted)
  have up: "[a..radi] = a # [a + 1..radi]"
    using le by (simp add: upto_rec1)
  show ?case
  proof (cases "a = radi")
    case True
    have "iter_incr it = next_row (xb, xe, yb, ye, zb, ze) y z"
      using rng pos nf xe True by (simp add: iter_incr_def next_row_def)
    with step l1 v1 True show ?thesis
      by (simp add: up w_def)
  next
    case False
    with le have lt: "a + 1 \<le> radi" by simp
    have inc: "iter_incr it = SrcIter (xb, xe, yb, ye, zb, ze) (sx + (a + 1), y, z) False"
      using rng pos nf xe lt by (simp add: iter_incr_def add.assoc)
    have "\<exists>pel'. foldM (gen_tap src filt nch xr yr fx fy j) [a + 1..radi] (iter_incr it, pel1, tw + w) =
                  Some (next_row (xb, xe, yb, ye, zb, ze) y z, pel',
                        tw + w + sum_list (map (\<lambda>i. feval filt (xr * (real_of_int i - (fx - 0.5)))
                                                            (yr * (real_of_int j - (fy - 0.5))))
                                           [a + 1..radi])) \<and>
               length pel' = nch \<and>
               (\<forall>c < nch. pel' ! c = pel1 ! c +
                  sum_list (map (\<lambda>i. feval filt (xr * (real_of_int i - (fx - 0.5)))
                                                  (yr * (real_of_int j - (fy - 0.5))) *
                                      iter_read src WrapClamp (sx + i) y z c) [a + 1..radi]))"
      by (rule "1.IH" [OF le]) (simp_all add: inc xe lt l1)
    then obtain pel' where
      r: "foldM (gen_tap src filt nch xr yr fx fy j) [a + 1..radi] (iter_incr it, pel1, tw + w) =
                  Some (next_row (xb, xe, yb, ye, zb, ze) y z, pel',
                        tw + w + sum_list (map (\<lambda>i. feval filt (xr * (real_of_int i - (fx - 0.5)))
                                                            (yr * (real_of_int j - (fy - 0.5))))
                                           [a + 1..radi]))"
      and l: "length pel' = nch"
      and v: "\<And>c. c < nch \<Longrightarrow> pel' ! c = pel1 ! c +
                  sum_list (map (\<lambda>i. feval filt (xr * (real_of_int i - (fx - 0.5)))
                                                  (yr * (real_of_int j - (fy - 0.5))) *
                                      iter_read src WrapClamp (sx + i) y z c) [a + 1..radi])"
      by blast
    from step r l v v1 show ?thesis
      by (simp add: up w_def add.assoc)
  qed
qed

lemma gen_rows_run:
  assumes "it_range it = (sx - radi, sx + radi + 1, yb, ye, 0, 1)"
      and "b \<le> radj \<longrightarrow> it_pos it = (sx - radi, sy + b, 0) \<and> \<not> it_finished it"
      and "sy + radj < ye" and "0 \<le> radi"
      and "int nch \<le> ib_nchannels src" and "length pel = nch"
  shows "\<exists>it' pel'.
           foldM (\<lambda>j. foldM (gen_tap src filt nch xr yr fx fy j) [- radi..radi]) [b..radj]
                 (it, pel, tw) =
             Some (it', pel',
                   tw + sum_list (map (\<lambda>j. sum_list (map (\<lambda>i.
                            feval filt (xr * (real_of_int i - (fx - 0.5)))
                                       (yr * (real_of_int j - (fy - 0.5)))) [- radi..radi]))
                          [b..radj])) \<and>
           length pel' = nch \<and>
           (\<forall>c < nch. pel' ! c = pel ! c +
              sum_list (map (\<lambda>j. sum_list (map (\<lambda>i.
                            feval filt (xr * (real_of_int i - (fx - 0.5)))
                                       (yr * (real_of_int j - (fy - 0.5))) *
                            iter_read src WrapClamp (sx + i) (sy + j) 0 c) [- radi..radi]))
                          [b..radj]))"
  using assms(1,2,3,6)
proof (induction b radj arbitrary: it pel tw rule: upto.induct)
  case (1 b radj)
  note rng = "1.prems"(1) and pos = "1.prems"(2) and ye = "1.prems"(3) and len = "1.prems"(4)
  show ?case
  proof (cases "b \<le> radj")
    case False
    then show ?thesis using len by (simp add: upto_rec1)
  next
    case True
    with pos have p: "it_pos it = (sx + (- radi), sy + b, 0)" and nf: "\<not> it_finished it"
      by simp_all
    have xe: "sx + radi + 1 = sx + radi + 1" ..
    have a: "- radi \<le> radi" using assms(4) by simp
    from gen_taps_run [OF rng p nf xe a assms(5) len, of filt xr yr fx fy b tw]
    obtain pel1 where
      r: "foldM (gen_tap src filt nch xr yr fx fy b) [- radi..radi] (it, pel, tw) =
            Some (next_row (sx - radi, sx + radi + 1, yb, ye, 0, 1) (sy + b) 0, pel1,
                  tw + sum_list (map (\<lambda>i. feval filt (xr * (real_of_int i - (fx - 0.5)))
                                                      (yr * (real_of_int b - (fy - 0.5))))
                                     [- radi..radi]))"
      and l1: "length pel1 = nch"
      and v1: "\<And>c. c < nch \<Longrightarrow> pel1 ! c = pel ! c +
                  sum_list (map (\<lambda>i. feval filt (xr * (real_of_int i - (fx - 0.5)))
                                                  (yr * (real_of_int b - (fy - 0.5))) *
                                      iter_read src WrapClamp (sx + i) (sy + b) 0 c) [- radi..radi])"
      by blast
    define it1 where "it1 = next_row (sx - radi, sx + radi + 1, yb, ye, 0, 1) (sy + b) 0"
    have r1: "it_range it1 = (sx - radi, sx + radi + 1, yb, ye, 0, 1)"
      by (simp add: it1_def next_row_def)
    have p1: "b + 1 \<le> radj \<longrightarrow> it_pos it1 = (sx - radi, sy + (b + 1), 0) \<and> \<not> it_finished it1"
      using ye by (simp add: it1_def next_row_def add.assoc)
    from "1.IH" [OF True r1 p1 ye l1] obtain it' pel' where
      f: "foldM (\<lambda>j. foldM (gen_tap src filt nch xr yr fx fy j) [- radi..radi]) [b + 1..radj]
                 (it1, pel1,
                  tw + sum_list (map (\<lambda>i. feval filt (xr * (real_of_int i - (fx - 0.5)))
                                                      (yr * (real_of_int b - (fy - 0.5))))
                                     [- radi..radi])) =
             Some (it', pel',
                   tw + sum_list (map (\<lambda>i. feval filt (xr * (real_of_int i - (fx - 0.5)))
                                                      (yr * (real_of_int b - (fy - 0.5))))
                                     [- radi..radi]) +
                   sum_list (map (\<lambda>j. sum_list (map (\<lambda>i.
                            feval filt (xr * (real_of_int i - (fx - 0.5)))
                                       (yr * (real_of_int j - (fy - 0.5)))) [- radi..radi]))
                          [b + 1..radj]))"
      and l': "length pel' = nch"
      and v': "\<And>c. c < nch \<Longrightarrow> pel' ! c = pel1 ! c +
              sum_list (map (\<lambda>j. sum_list (map (\<lambda>i.
                            feval filt (xr * (real_of_int i - (fx - 0.5)))
                                       (yr * (real_of_int j - (fy - 0.5))) *
                            iter_read src WrapClamp (sx + i) (sy + j) 0 c) [- radi..radi]))
                          [b + 1..radj])"
      by blast
    have up: "[b..radj] = b # [b + 1..radj]" using True by (simp add: upto_rec1)
    from r f l' v' v1 show ?thesis
      unfolding up it1_def [symmetric] by (simp add: add.assoc)
  qed
qed

lemma gen_pixel_rows:
  assumes "0 \<le> radj" and "radj \<le> radi" and "int nch \<le> ib_nchannels src"
  shows "gen_pixel dst src filt nch radi radj x (fst (floorfrac (src_yf dst src y)))
                   (snd (floorfrac (src_yf dst src y))) =
           Some (rect_accum dst src filt nch radi radj x y (radj - radi))"
proof -
  define sx where "sx = snd (floorfrac (src_xf dst src x))"
  define fx where "fx = fst (floorfrac (src_xf dst src x))"
  define src_y where "src_y = snd (floorfrac (src_yf dst src y))"
  define fy where "fy = fst (floorfrac (src_yf dst src y))"
  define it where "it = rerange (sx - radi) (sx + radi + 1) (src_y - radi) (src_y + radi + 1) 0 1"
  have radi: "0 \<le> radi" using assms by simp
  have r: "it_range it = (sx - radi, sx + radi + 1, src_y - radi, src_y + radi + 1, 0, 1)"
    by (simp add: it_def rerange_def)
  have p: "- radj \<le> radj \<longrightarrow>
             it_pos it = (sx - radi, src_y + (radj - radi) + (- radj), 0) \<and> \<not> it_finished it"
    using radi by (simp add: it_def rerange_def)
  have y: "src_y + (radj - radi) + radj < src_y + radi + 1" using assms(2) by simp
  from gen_rows_run [OF r p y radi assms(3), of "replicate nch 0" filt
                        "resize_xratio dst src" "resize_yratio dst src" fx fy 0]
  obtain it' pel' where
    f: "foldM (\<lambda>j. foldM (gen_tap src filt nch (resize_xratio dst src) (resize_yratio dst src)
                              fx fy j) [- radi..radi]) [- radj..radj]
              (it, replicate nch 0, 0) =
          Some (it', pel',
                sum_list (map (\<lambda>j. sum_list (map (\<lambda>i. gen_weight dst src filt x y i j)
                                                  [- radi..radi])) [- radj..radj]))"
    and l: "length pel' = nch"
    and v: "\<And>c. c < nch \<Longrightarrow> pel' ! c =
              sum_list (map (\<lambda>j. sum_list (map (\<lambda>i.
                            gen_weight dst src filt x y i j *
                            iter_read src WrapClamp (sx + i) (src_y + (radj - radi) + j) 0 c)
                          [- radi..radi])) [- radj..radj])"
    by (auto simp: gen_weight_def fx_def fy_def)
  have pel': "pel' = map (\<lambda>c. sum_list (map (\<lambda>j. sum_list (map (\<lambda>i.
                            gen_weight dst src filt x y i j *
                            iter_read src WrapClamp (sx + i) (src_y + (radj - radi) + j) 0 c)
                          [- radi..radi])) [- radj..radj])) [0..<nch]"
    by (rule nth_equalityI) (simp_all add: l v)
  show ?thesis
    unfolding gen_pixel_def rect_accum_def Let_def
    using f
    by (simp add: sx_def [symmetric] fx_def [symmetric] src_y_def [symmetric] fy_def [symmetric]
                  it_def [symmetric] pel' o_def)
qed

lemma gen_pixel_equal_radii:
  assumes "0 \<le> resize_radj filt dst src" and "resize_radj filt dst src = resize_radi filt dst src"
      and "int nch \<le> ib_nchannels src"
  shows "gen_pixel dst src filt nch (resize_radi filt dst src) (resize_radj filt dst src) x
                   (fst (floorfrac (src_yf dst src y))) (snd (floorfrac (src_yf dst src y))) =
           Some (spec_gen_pixel dst src filt nch x y)"
  using gen_pixel_rows [OF assms(1) _ assms(3), of "resize_radi filt dst src" dst filt x y] assms(2)
  by (simp add: spec_gen_pixel_def)

lemma bug_consts:
  "resize_xratio dst_2x4 src_rows = 1/2" "resize_yratio dst_2x4 src_rows = 1"
  "resize_radi (disk_filter 2 2) dst_2x4 src_rows = 2"
  "resize_radj (disk_filter 2 2) dst_2x4 src_rows = 1"
  "floorfrac (src_xf dst_2x4 src_rows 0) = (0, 1)"
  "floorfrac (src_yf dst_2x4 src_rows 1) = (1/2, 1)"
  "nchannels (spec dst_2x4) = 1" "ib_nchannels src_rows = 1" "separable (disk_filter 2 2) = False"
  by (simp_all add: resize_xratio_def resize_yratio_def resize_radi_def resize_radj_def
                    floorfrac_def src_xf_def src_yf_def src_coord_def Let_def
                    dst_2x4_def src_rows_def mkimage_def mkspec_def disk_filter_def ib_nchannels_def)

lemma bug_read: "iter_read src_rows WrapClamp x 0 0 0 = 0" 
  by (simp add: iter_read_def in_window_def src_rows_def mkimage_def mkspec_def ib_xbegin_def
                ib_xend_def ib_ybegin_def ib_yend_def ib_zbegin_def ib_zend_def clamp_def Let_def)

lemma bug_read1: "iter_read src_rows WrapClamp x 1 0 0 = 1" 
  by (simp add: iter_read_def in_window_def src_rows_def mkimage_def mkspec_def ib_xbegin_def
                ib_xend_def ib_ybegin_def ib_yend_def ib_zbegin_def ib_zend_def clamp_def Let_def)

lemma bug_feval:
  "feval (disk_filter 2 2) x y = (if x * x + y * y < 1 then 1 else 0)"
  by (simp add: disk_filter_def)

lemma bug_gen_pixel:
  "gen_pixel dst_2x4 src_rows (disk_filter 2 2) (Suc 0) 2 1 0 (1/2) 1 = Some [0]"
  by (simp add: gen_pixel_def Let_def bug_consts upto_rec1 gen_tap_def bug_feval rerange_def
                iter_incr_def iter_get_def add_weighted_def bug_read)

lemma bug_spec_pixel:
  "spec_gen_pixel dst_2x4 src_rows (disk_filter 2 2) (Suc 0) 0 1 = [1]"
  by (simp add: spec_gen_pixel_def rect_accum_def gen_weight_def Let_def bug_consts upto_rec1
                bug_feval bug_read1)

lemma bug_roi:
  "roi_pixels R_pixel01 = [(0, 1, 0)]" "xbegin R_pixel01 = 0" "xend R_pixel01 = 1"
  "ybegin R_pixel01 = 1" "yend R_pixel01 = 2"
  by (simp_all add: roi_pixels_def iter_range_def R_pixel01_def mkROI_def upto_rec1)

lemma bug_kernel:
  "resize_kernel dst_2x4 src_rows (disk_filter 2 2) R_pixel01 =
     Some (setpixel dst_2x4 (0, 1, 0) 0 0, True)"
  by (simp add: resize_kernel_def resize_row_def Let_def bug_consts bug_roi upto_rec1
                bug_gen_pixel resize_out_def)

text \<open>
  C2. Resizing the 4 x 4 source to the 2 x 4 window with the disk filter of width 2
  gives \<open>radi = 2\<close> and \<open>radj = 1\<close>. At the output pixel \<open>(0, 1)\<close> the kernel, whose
  iterator spans the rows \<open>src_y - radi .. src_y + radi\<close>, weights source row 0 with the
  taps of \<open>j = 0\<close> and writes 0; the accumulation over the rows
  \<open>src_y - radj .. src_y + radj\<close> of the claim gives 1.
\<close>

theorem resize_general_support_bug:
  "resize_kernel dst_2x4 src_rows (disk_filter 2 2) R_pixel01 \<noteq> None \<and>
   pixels (fst (the (resize_kernel dst_2x4 src_rows (disk_filter 2 2) R_pixel01))) 0 1 0 0 = 0 \<and>
   spec_gen_pixel dst_2x4 src_rows (disk_filter 2 2) 1 0 1 = [1]"
  by (simp add: bug_kernel bug_spec_pixel setpixel_def)

end
